theory Spec2Isabelle
  imports Complex_Main "HOL-Library.AList" "HOL-Library.Char_ord"
begin

section \<open>JavaScript values used by the matching engine\<close>

text \<open>
  A JavaScript number is a double. The matching engine only compares numbers, and the
  comparison of two doubles is the comparison of the reals they denote, so a number is
  modelled as NaN, an infinity, or a finite real.
\<close>

datatype jsnum = NaN | NegInf | Fin real | PosInf

fun isNaN :: "jsnum \<Rightarrow> bool" where
  "isNaN NaN = True"
| "isNaN _ = False"

text \<open>The operator \<open><\<close> on numbers; \<open>a > b\<close> is \<open>jsLess b a\<close>. Any comparison with NaN is false.\<close>

fun jsLess :: "jsnum \<Rightarrow> jsnum \<Rightarrow> bool" where
  "jsLess NaN _ = False"
| "jsLess _ NaN = False"
| "jsLess (Fin a) (Fin b) = (a < b)"
| "jsLess NegInf NegInf = False"
| "jsLess NegInf _ = True"
| "jsLess _ NegInf = False"
| "jsLess PosInf _ = False"
| "jsLess _ PosInf = True"

section \<open>Data model (types.ts)\<close>

record Entity =
  e_id :: string
  e_name :: string

datatype EntityNode =
  EntityNode (n_id: string) (n_name: string) (children: "EntityNode list") (isGroup: bool)

text \<open>
  \<open>FeatureType\<close> is the string union \<open>'state' | 'numeric' | 'text'\<close>; the parser fills it
  with a cast of an XML attribute, which may be absent (\<open>null\<close>) or any other string, so
  the field holds what \<open>getAttribute\<close> returns. \<open>ScoreType\<close> is likewise the attribute
  string \<open>'0'\<close> .. \<open>'5'\<close>.
\<close>

type_synonym FeatureType = "string option"
type_synonym ScoreType = string

record Feature =
  f_id :: string
  f_name :: string
  f_type :: FeatureType
  f_isState :: bool
  parentName :: "string option"
  base_unit :: "string option"
  unit_prefix :: "string option"

datatype FeatureNode =
  FeatureNode (fn_id: string) (fn_name: string) (fn_type: FeatureType) (fn_isState: bool)
    (fn_children: "FeatureNode list")

datatype Score = StateScore ScoreType | NumericScore jsnum jsnum

text \<open>
  JavaScript maps keep insertion order: an association list, read with \<open>map_of\<close> and
  written with \<open>AList.update\<close> (in place for a key that is there, at the end otherwise).
  The fields of \<open>KeyData\<close> that only the display reads (the media maps, the entity
  profiles, the feature list for the assistant) and the rendering flag \<open>isDimmed\<close> of a
  node are left out: nothing modelled here reads them.
\<close>

record KeyData =
  keyTitle :: string
  keyAuthors :: string
  keyDescription :: string
  allEntities :: "(string \<times> Entity) list"
  entityTree :: "EntityNode list"
  allFeatures :: "(string \<times> Feature) list"
  featureTree :: "FeatureNode list"
  entityScores :: "(string \<times> (string \<times> Score) list) list"
  totalFeaturesCount :: nat
  parsingErrors :: "string list"

text \<open>
  \<open>ChosenFeature.value\<close> is optional and holds a string or a number; \<open>updateFeature\<close>
  stores the boolean \<open>true\<close> for a chosen state.
\<close>

datatype ChoiceValue = Undefined | BoolValue bool | StringValue string | NumberValue jsnum

record ChosenFeature =
  cf_value :: ChoiceValue

section \<open>The matching engine (the memo of App)\<close>

text \<open>
  \<open>parseFloat(String(choice.value))\<close>. The builtin \<open>parseFloat\<close> is a parameter \<open>pf\<close> of the
  model. \<open>String\<close> of a number prints it so that \<open>parseFloat\<close> reads the same number back.
\<close>

fun choiceNumber :: "(string \<Rightarrow> jsnum) \<Rightarrow> ChoiceValue \<Rightarrow> jsnum" where
  "choiceNumber pf Undefined = pf ''undefined''"
| "choiceNumber pf (BoolValue b) = pf (if b then ''true'' else ''false'')"
| "choiceNumber pf (StringValue s) = pf s"
| "choiceNumber pf (NumberValue n) = n"

text \<open>Reading a field the stored object does not have gives \<open>undefined\<close> (NaN in a comparison).\<close>

fun scoreCode :: "Score \<Rightarrow> string option" where
  "scoreCode (StateScore v) = Some v"
| "scoreCode (NumericScore lo hi) = None"

fun scoreMin :: "Score \<Rightarrow> jsnum" where
  "scoreMin (NumericScore lo hi) = lo"
| "scoreMin (StateScore v) = NaN"

fun scoreMax :: "Score \<Rightarrow> jsnum" where
  "scoreMax (NumericScore lo hi) = hi"
| "scoreMax (StateScore v) = NaN"

definition isMismatch ::
  "(string \<Rightarrow> jsnum) \<Rightarrow> Feature \<Rightarrow> Score option \<Rightarrow> ChosenFeature \<Rightarrow> bool" where
  "isMismatch pf feature score choice =
     (case score of
        None \<Rightarrow> True
      | Some sc \<Rightarrow>
          (f_type feature = Some ''state'' \<and> scoreCode sc = Some ''0'') \<or>
          (f_type feature = Some ''numeric'' \<and>
             (isNaN (choiceNumber pf (cf_value choice)) \<or>
              jsLess (choiceNumber pf (cf_value choice)) (scoreMin sc) \<or>
              jsLess (scoreMax sc) (choiceNumber pf (cf_value choice)))))"

definition scoreOf :: "KeyData \<Rightarrow> string \<Rightarrow> string \<Rightarrow> Score option" where
  "scoreOf kd entityId featureId =
     (case map_of (entityScores kd) entityId of
        None \<Rightarrow> None
      | Some scores \<Rightarrow> map_of scores featureId)"

text \<open>
  The inner loop over the chosen features for one entity: a feature id that is not in the
  catalog is skipped (\<open>continue\<close>), the first mismatch ends the loop (\<open>break\<close>).
\<close>

fun hasMismatch ::
  "(string \<Rightarrow> jsnum) \<Rightarrow> KeyData \<Rightarrow> string \<Rightarrow> (string \<times> ChosenFeature) list \<Rightarrow> bool" where
  "hasMismatch pf kd entityId [] = False"
| "hasMismatch pf kd entityId ((featureId, choice) # rest) =
     (case map_of (allFeatures kd) featureId of
        None \<Rightarrow> hasMismatch pf kd entityId rest
      | Some feature \<Rightarrow>
          if isMismatch pf feature (scoreOf kd entityId featureId) choice then True
          else hasMismatch pf kd entityId rest)"

text \<open>
  One pass of \<open>buildIndirectHierarchy\<close>: \<open>forEach\<close> over the nodes it is given, updating
  \<open>indirectMatches\<close>, \<open>remainingIds\<close> and \<open>changedInLoop\<close>.
\<close>

fun scanNodes ::
  "EntityNode list \<Rightarrow> string set \<Rightarrow> string set \<Rightarrow> bool \<Rightarrow> string set \<times> string set \<times> bool" where
  "scanNodes [] indirect remaining changed = (indirect, remaining, changed)"
| "scanNodes (node # nodes) indirect remaining changed =
     (if isGroup node \<and> n_id node \<notin> remaining then
        (if list_ex (\<lambda>child. n_id child \<in> remaining) (children node)
         then scanNodes nodes (insert (n_id node) indirect) (insert (n_id node) remaining) True
         else scanNodes nodes indirect remaining changed)
      else scanNodes nodes indirect remaining changed)"

definition buildIndirectHierarchy ::
  "EntityNode list \<Rightarrow> string set \<Rightarrow> string set \<Rightarrow> string set \<times> string set \<times> bool" where
  "buildIndirectHierarchy nodes indirect remaining = scanNodes nodes indirect remaining False"

text \<open>\<open>while (buildIndirectHierarchy(keyData.entityTree));\<close>\<close>

function indirectLoop :: "EntityNode list \<Rightarrow> string set \<Rightarrow> string set \<Rightarrow> string set \<times> string set" where
  "indirectLoop nodes indirect remaining =
     (case buildIndirectHierarchy nodes indirect remaining of
        (indirect', remaining', changed) \<Rightarrow>
          if changed then indirectLoop nodes indirect' remaining' else (indirect', remaining'))"
  by pat_completeness auto
termination
proof (relation "measure (\<lambda>(nodes, indirect, remaining). card (n_id ` set nodes - remaining))")
  show "wf (measure (\<lambda>(nodes, indirect, remaining). card (n_id ` set nodes - remaining)))"
    by simp
next
  fix nodes :: "EntityNode list" and indirect remaining :: "string set"
    and indirect' y remaining' changed
  assume run: "(indirect', y) = buildIndirectHierarchy nodes indirect remaining"
    and y: "(remaining', changed) = y" and ch: "changed"
  have grow: "remaining \<subseteq> r' \<and> (c' \<longrightarrow> c \<or> (\<exists>k \<in> n_id ` set ns. k \<notin> remaining \<and> k \<in> r'))"
    if "scanNodes ns i remaining c = (i', r', c')" for ns i c i' r' c'
    using that
  proof (induction ns arbitrary: i remaining c)
    case Nil
    then show ?case by auto
  next
    case (Cons n ns)
    show ?case
    proof (cases "isGroup n \<and> n_id n \<notin> remaining \<and> list_ex (\<lambda>child. n_id child \<in> remaining) (children n)")
      case True
      with Cons.prems have "scanNodes ns (insert (n_id n) i) (insert (n_id n) remaining) True = (i', r', c')"
        by simp
      from Cons.IH [OF this] True show ?thesis by auto
    next
      case False
      with Cons.prems have "scanNodes ns i remaining c = (i', r', c')"
        by (auto split: if_splits)
      from Cons.IH [OF this] show ?thesis by auto
    qed
  qed
  from run y have "scanNodes nodes indirect remaining False = (indirect', remaining', changed)"
    by (simp add: buildIndirectHierarchy_def)
  from grow [OF this] ch obtain k where sub: "remaining \<subseteq> remaining'"
    and k: "k \<in> n_id ` set nodes" "k \<notin> remaining" "k \<in> remaining'"
    by auto
  have "n_id ` set nodes - remaining' \<subset> n_id ` set nodes - remaining"
    using sub k by auto
  then have "card (n_id ` set nodes - remaining') < card (n_id ` set nodes - remaining)"
    by (intro psubset_card_mono) auto
  then show "((nodes, indirect', remaining'), (nodes, indirect, remaining))
      \<in> measure (\<lambda>(nodes, indirect, remaining). card (n_id ` set nodes - remaining))"
    by simp
qed

record MatchResult =
  directMatches :: "string set"
  indirectMatches :: "string set"
  discardedEntityIds :: "string set"
  directlyDiscarded :: "string set"

definition computeMatches ::
  "(string \<Rightarrow> jsnum) \<Rightarrow> KeyData option \<Rightarrow> (string \<times> ChosenFeature) list \<Rightarrow> MatchResult" where
  "computeMatches pf keyData chosenFeatures =
     (case keyData of
        None \<Rightarrow>
          \<lparr>directMatches = {}, indirectMatches = {}, discardedEntityIds = {},
           directlyDiscarded = {}\<rparr>
      | Some kd \<Rightarrow>
          let allEntityIds = map fst (allEntities kd) in
          if chosenFeatures = [] then
            \<lparr>directMatches = set allEntityIds, indirectMatches = {}, discardedEntityIds = {},
             directlyDiscarded = {}\<rparr>
          else
            let discardedDirectly = filter (\<lambda>entityId. hasMismatch pf kd entityId chosenFeatures) allEntityIds;
                direct = filter (\<lambda>i. i \<notin> set discardedDirectly) allEntityIds
            in case indirectLoop (entityTree kd) {} (set direct) of
                 (indirect, remainingIds) \<Rightarrow>
                   \<lparr>directMatches = set direct, indirectMatches = indirect,
                    discardedEntityIds = set (filter (\<lambda>i. i \<notin> remainingIds) allEntityIds),
                    directlyDiscarded = set discardedDirectly\<rparr>)"

section \<open>The parsed documents (DOM)\<close>

text \<open>
  An XML element as the parser reads it: its tag name, its attributes, and its child
  elements in document order. A document is given by its document element, whose parent is
  the document itself and not an element.
\<close>

datatype Element =
  Element (tagName: string) (attributes: "(string \<times> string) list") (elements: "Element list")

definition getAttribute :: "Element \<Rightarrow> string \<Rightarrow> string option" where
  "getAttribute el name = map_of (attributes el) name"

text \<open>\<open>if (x)\<close> on a value that is a string or \<open>null\<close>; \<open>x || d\<close>.\<close>

fun truthy :: "string option \<Rightarrow> bool" where
  "truthy None = False"
| "truthy (Some s) = (s \<noteq> [])"

definition orElse :: "string option \<Rightarrow> string \<Rightarrow> string" where
  "orElse x d = (case x of None \<Rightarrow> d | Some s \<Rightarrow> if s = [] then d else s)"

text \<open>The elements below an element, in document order.\<close>

fun descendants :: "Element \<Rightarrow> Element list" where
  "descendants (Element t a cs) = concat (map (\<lambda>c. c # descendants c) cs)"

text \<open>The same walk, each element with its ancestors (the parent first).\<close>

fun withAncestors :: "Element list \<Rightarrow> Element \<Rightarrow> (Element \<times> Element list) list" where
  "withAncestors anc (Element t a cs) =
     (Element t a cs, anc) # concat (map (withAncestors (Element t a cs # anc)) cs)"

text \<open>\<open>querySelectorAll\<close> and \<open>querySelector\<close> with a tag-name selector, on a document and on an element.\<close>

definition docSelectAll :: "Element \<Rightarrow> string list \<Rightarrow> Element list" where
  "docSelectAll doc tags = filter (\<lambda>el. tagName el \<in> set tags) (doc # descendants doc)"

definition selectAll :: "Element \<Rightarrow> string \<Rightarrow> Element list" where
  "selectAll el tag = filter (\<lambda>d. tagName d = tag) (descendants el)"

definition docSelect :: "Element \<Rightarrow> string \<Rightarrow> Element option" where
  "docSelect doc tag = find (\<lambda>el. tagName el = tag) (doc # descendants doc)"

definition select :: "Element \<Rightarrow> string \<Rightarrow> Element option" where
  "select el tag = find (\<lambda>d. tagName d = tag) (descendants el)"

text \<open>\<open>:scope > a, :scope > b\<close>: the first child element with one of the tags.\<close>

definition scopeChild :: "Element \<Rightarrow> string list \<Rightarrow> Element option" where
  "scopeChild el tags = find (\<lambda>c. tagName c \<in> set tags) (elements el)"

text \<open>\<open>parent > child\<close> on a document: the elements with the child tag whose parent has the parent tag.\<close>

definition docSelectChildren :: "Element \<Rightarrow> string \<Rightarrow> string \<Rightarrow> Element list" where
  "docSelectChildren doc parent child =
     map fst (filter (\<lambda>(el, anc). tagName el = child \<and> anc \<noteq> [] \<and> tagName (hd anc) = parent)
                (withAncestors [] doc))"

text \<open>
  \<open>closest(tag)\<close> on the chain of an element and its ancestors: the rest of the chain from the
  first element with the tag on; empty when there is none.
\<close>

definition closest :: "string \<Rightarrow> Element list \<Rightarrow> Element list" where
  "closest tag chain = dropWhile (\<lambda>e. tagName e \<noteq> tag) chain"

text \<open>The values of a list of nullable values that are not \<open>null\<close>.\<close>

fun nonNull :: "'a option list \<Rightarrow> 'a list" where
  "nonNull [] = []"
| "nonNull (None # xs) = nonNull xs"
| "nonNull (Some x # xs) = x # nonNull xs"

section \<open>The archive (JSZip) and the platform\<close>

record ZipObject =
  zo_name :: string
  zo_dir :: bool
  zo_data :: string

type_synonym JSZip = "ZipObject list"

text \<open>
  The library functions the parser calls are parameters of the model: \<open>JSZip.loadAsync\<close> on
  the bytes of a file (\<open>None\<close> when it throws), \<open>DOMParser.parseFromString\<close> (which never
  throws: a malformed text gives an error document), and \<open>parseFloat\<close>. Reading an entry of a
  loaded archive gives its data.
\<close>

record Platform =
  loadAsync :: "string \<Rightarrow> JSZip option"
  parseFromString :: "string \<Rightarrow> Element"
  parseFloat :: "string \<Rightarrow> jsnum"

record File =
  file_name :: string
  file_data :: string

text \<open>Strings: \<open>toLowerCase\<close> on ASCII letters, \<open>replace(/\\/g, '/')\<close>, \<open>endsWith\<close>, \<open>indexOf\<close>.\<close>

definition toLowerChar :: "char \<Rightarrow> char" where
  "toLowerChar c = (if CHR ''A'' \<le> c \<and> c \<le> CHR ''Z'' then char_of (of_char c + (32::nat)) else c)"

definition toLowerCase :: "string \<Rightarrow> string" where
  "toLowerCase s = map toLowerChar s"

definition slashes :: "string \<Rightarrow> string" where
  "slashes s = map (\<lambda>c. if c = CHR 0x5C then CHR ''/'' else c) s"

definition endsWith :: "string \<Rightarrow> string \<Rightarrow> bool" where
  "endsWith s t = (length t \<le> length s \<and> drop (length s - length t) s = t)"

fun indexOf :: "string \<Rightarrow> string \<Rightarrow> nat option" where
  "indexOf [] t = (if t = [] then Some 0 else None)"
| "indexOf (c # s) t =
     (if take (length t) (c # s) = t then Some 0 else map_option Suc (indexOf s t))"

section \<open>The parser (LucidKeyParser)\<close>

definition findFileInZip :: "JSZip \<Rightarrow> string \<Rightarrow> ZipObject option" where
  "findFileInZip files path =
     find (\<lambda>f. slashes (toLowerCase (zo_name f)) = slashes (toLowerCase path)) files"

text \<open>
  \<open>readFromInnerZip\<close>: \<open>None\<close> when the inner archive is not found, when it cannot be loaded
  (the exception is caught), or when the target file is not in it.
\<close>

definition readFromInnerZip :: "Platform \<Rightarrow> JSZip \<Rightarrow> string \<Rightarrow> string \<Rightarrow> string option" where
  "readFromInnerZip plat outerZip innerZipPath targetFileName =
     (case findFileInZip outerZip innerZipPath of
        None \<Rightarrow> None
      | Some innerZipFile \<Rightarrow>
          (case loadAsync plat (zo_data innerZipFile) of
             None \<Rightarrow> None
           | Some innerZip \<Rightarrow>
               (case findFileInZip innerZip targetFileName of
                  None \<Rightarrow> None
                | Some targetFile \<Rightarrow> Some (zo_data targetFile))))"

text \<open>
  What ends \<open>processKeyFromZip\<close> with an exception: the file is no archive, the data
  directory is missing, \<open>key.data\<close> cannot be read from the nested archive (the message names
  its path), and the call of \<open>closest\<close> on the document, which is no element, in the
  catalog loop.
\<close>

datatype LoadError =
  FileUnreadable | DataDirNotFound | KeyDataNotFound string | ClosestTypeError

text \<open>\<open>zipFile.name.replace(/\.(zip|lk4|lk5)$/i, '')\<close>\<close>

definition stripKeyExtension :: "string \<Rightarrow> string" where
  "stripKeyExtension name =
     (if 4 \<le> length name \<and>
         toLowerCase (drop (length name - 4) name) \<in> set [''.zip'', ''.lk4'', ''.lk5'']
      then take (length name - 4) name else name)"

definition isDataDir :: "ZipObject \<Rightarrow> bool" where
  "isDataDir file = (zo_dir file \<and> endsWith (slashes (toLowerCase (zo_name file))) ''data/'')"

definition rootPathOf :: "string \<Rightarrow> string" where
  "rootPathOf dataDirPath =
     (case indexOf (toLowerCase dataDirPath) ''data/'' of
        None \<Rightarrow> []
      | Some i \<Rightarrow> take i dataDirPath)"

text \<open>\<open>getProp\<close>: the \<open>value\<close> of the first \<open>property\<close> element with the key, or the empty string.\<close>

definition getProp :: "Element \<Rightarrow> string \<Rightarrow> string" where
  "getProp keyDoc key =
     (case find (\<lambda>el. tagName el = ''property'' \<and> getAttribute el ''key'' = Some key)
             (keyDoc # descendants keyDoc) of
        None \<Rightarrow> []
      | Some el \<Rightarrow> orElse (getAttribute el ''value'') [])"

text \<open>The loop over the \<open>entity_item\<close> elements: the catalog and an empty score map per entity.\<close>

fun addEntities ::
  "Element list \<Rightarrow> (string \<times> Entity) list \<times> (string \<times> (string \<times> Score) list) list \<Rightarrow>
   (string \<times> Entity) list \<times> (string \<times> (string \<times> Score) list) list" where
  "addEntities [] acc = acc"
| "addEntities (el # els) (entities, scores) =
     (case getAttribute el ''item_id'' of
        None \<Rightarrow> addEntities els (entities, scores)
      | Some i \<Rightarrow>
          if i = [] then addEntities els (entities, scores)
          else addEntities els
                 (AList.update i \<lparr>e_id = i, e_name = orElse (getAttribute el ''item_name'') ''Unknown Entity''\<rparr> entities,
                  AList.update i [] scores))"

text \<open>
  The name of the enclosing feature group of an item:
  \<open>(el.closest('feature_node')?.parentNode as Element)?.closest('feature_node')\<close>, then the
  \<open>item_name\<close> of its \<open>feature_item\<close> child. When the closest \<open>feature_node\<close> is the document
  element, its parent is the document, which has no method \<open>closest\<close>.
\<close>

definition featureParentName :: "Element \<Rightarrow> Element list \<Rightarrow> LoadError + string option" where
  "featureParentName el anc =
     (case closest ''feature_node'' (el # anc) of
        [] \<Rightarrow> Inr None
      | node # up \<Rightarrow>
          (case up of
             [] \<Rightarrow> Inl ClosestTypeError
           | parent # up' \<Rightarrow>
               (case closest ''feature_node'' (parent # up') of
                  [] \<Rightarrow> Inr None
                | parentNode # _ \<Rightarrow>
                    (case scopeChild parentNode [''feature_item''] of
                       None \<Rightarrow> Inr None
                     | Some item \<Rightarrow> Inr (getAttribute item ''item_name'')))))"

text \<open>The loop over the \<open>feature_item\<close> and \<open>state_item\<close> elements; items of type \<open>text\<close> are left out.\<close>

fun addFeatures ::
  "(Element \<times> Element list) list \<Rightarrow> (string \<times> Feature) list \<Rightarrow> LoadError + (string \<times> Feature) list" where
  "addFeatures [] features = Inr features"
| "addFeatures ((el, anc) # els) features =
     (let isState = (tagName el = ''state_item'');
          type = (if isState then Some ''state'' else getAttribute el ''score_type'')
      in if type = Some ''text'' then addFeatures els features
         else
           (case getAttribute el ''item_id'' of
              None \<Rightarrow> addFeatures els features
            | Some i \<Rightarrow>
                if i = [] then addFeatures els features
                else
                  (case featureParentName el anc of
                     Inl err \<Rightarrow> Inl err
                   | Inr parent \<Rightarrow>
                       addFeatures els
                         (AList.update i
                            \<lparr>f_id = i,
                             f_name = orElse (getAttribute el ''item_name'') ''Unknown Feature'',
                             f_type = type, f_isState = isState, parentName = parent,
                             base_unit = getAttribute el ''base_unit'',
                             unit_prefix = getAttribute el ''unit_prefix''\<rparr>
                            features))))"

text \<open>
  The tree builders. A node is dropped (\<open>null\<close>) when it has no item element, when the item
  has no id, or when the id is not in the catalog; the children come from the \<open>nodes\<close>
  container, the dropped ones filtered out.
\<close>

function buildFeatureNode :: "Element \<Rightarrow> (string \<times> Feature) list \<Rightarrow> FeatureNode option" where
  "buildFeatureNode xmlNode features =
     (case scopeChild xmlNode [''feature_item'', ''state_item''] of
        None \<Rightarrow> None
      | Some itemElement \<Rightarrow>
          (case getAttribute itemElement ''item_id'' of
             None \<Rightarrow> None
           | Some i \<Rightarrow>
               if i = [] then None
               else
                 (case map_of features i of
                    None \<Rightarrow> None
                  | Some feature \<Rightarrow>
                      Some (FeatureNode i (f_name feature) (f_type feature) (f_isState feature)
                        (case scopeChild xmlNode [''nodes''] of
                           None \<Rightarrow> []
                         | Some childrenContainer \<Rightarrow>
                             nonNull (map (\<lambda>childNode. buildFeatureNode childNode features)
                                        (elements childrenContainer)))))))"
  by pat_completeness auto
termination
proof (relation "measure (\<lambda>(xmlNode, features). size xmlNode)")
  show "wf (measure (\<lambda>(xmlNode, features :: (string \<times> Feature) list). size (xmlNode :: Element)))"
    by simp
next
  fix xmlNode :: Element and features :: "(string \<times> Feature) list" and childrenContainer childNode
  assume c: "scopeChild xmlNode [''nodes''] = Some childrenContainer"
    and n: "childNode \<in> set (elements childrenContainer)"
  have below: "size c < size e" if "c \<in> set (elements e)" for c e :: Element
    using that by (cases e) (auto simp: less_Suc_eq_le intro: size_list_estimation')
  from c have "childrenContainer \<in> set (elements xmlNode)"
    by (auto simp: scopeChild_def find_Some_iff)
  with n below have "size childNode < size xmlNode"
    by (meson less_trans)
  then show "((childNode, features), (xmlNode, features))
      \<in> measure (\<lambda>(xmlNode, features). size xmlNode)"
    by simp
qed

function buildEntityNode :: "Element \<Rightarrow> (string \<times> Entity) list \<Rightarrow> EntityNode option" where
  "buildEntityNode xmlNode entities =
     (case scopeChild xmlNode [''entity_item''] of
        None \<Rightarrow> None
      | Some itemElement \<Rightarrow>
          (case getAttribute itemElement ''item_id'' of
             None \<Rightarrow> None
           | Some i \<Rightarrow>
               if i = [] then None
               else
                 (case map_of entities i of
                    None \<Rightarrow> None
                  | Some entity \<Rightarrow>
                      (let children =
                             (case scopeChild xmlNode [''nodes''] of
                                None \<Rightarrow> []
                              | Some childrenContainer \<Rightarrow>
                                  nonNull (map (\<lambda>childNode. buildEntityNode childNode entities)
                                             (elements childrenContainer)))
                       in Some (EntityNode i (e_name entity) children (children \<noteq> []))))))"
  by pat_completeness auto
termination
proof (relation "measure (\<lambda>(xmlNode, entities). size xmlNode)")
  show "wf (measure (\<lambda>(xmlNode, entities :: (string \<times> Entity) list). size (xmlNode :: Element)))"
    by simp
next
  fix xmlNode :: Element and entities :: "(string \<times> Entity) list" and childrenContainer childNode
  assume c: "scopeChild xmlNode [''nodes''] = Some childrenContainer"
    and n: "childNode \<in> set (elements childrenContainer)"
  have below: "size c < size e" if "c \<in> set (elements e)" for c e :: Element
    using that by (cases e) (auto simp: less_Suc_eq_le intro: size_list_estimation')
  from c have "childrenContainer \<in> set (elements xmlNode)"
    by (auto simp: scopeChild_def find_Some_iff)
  with n below have "size childNode < size xmlNode"
    by (meson less_trans)
  then show "((childNode, entities), (xmlNode, entities))
      \<in> measure (\<lambda>(xmlNode, entities). size xmlNode)"
    by simp
qed

text \<open>
  The equations of the two builders rewrite a call into another under a \<open>\<lambda>\<close>, so they are
  unfolded by hand.
\<close>

declare buildFeatureNode.simps [simp del] buildEntityNode.simps [simp del]

text \<open>\<open>countAvailableFeatures\<close>: the three cases of the loop body, in the order of the source.\<close>

fun countAvailableFeatures :: "FeatureNode list \<Rightarrow> nat" where
  "countAvailableFeatures [] = 0"
| "countAvailableFeatures (FeatureNode i n t s cs # nodes) =
     (if t = Some ''numeric'' then 1
      else if cs \<noteq> [] \<and> fn_isState (hd cs) then 1
      else if cs \<noteq> [] then countAvailableFeatures cs
      else 0) + countAvailableFeatures nodes"

text \<open>
  \<open>keyData.entityScores.get(entityId)?.set(featureId, score)\<close>: nothing happens for an
  entity id without a score map.
\<close>

definition setScore ::
  "(string \<times> (string \<times> Score) list) list \<Rightarrow> string \<Rightarrow> string \<Rightarrow> Score \<Rightarrow>
   (string \<times> (string \<times> Score) list) list" where
  "setScore scores entityId featureId score =
     (case map_of scores entityId of
        None \<Rightarrow> scores
      | Some m \<Rightarrow> AList.update entityId (AList.update featureId score m) scores)"

text \<open>The \<open>scored_item\<close> elements of one \<open>scoring_item\<close> of the state scores.\<close>

fun addStateScores ::
  "string \<Rightarrow> Element list \<Rightarrow> (string \<times> (string \<times> Score) list) list \<Rightarrow>
   (string \<times> (string \<times> Score) list) list" where
  "addStateScores stateId [] scores = scores"
| "addStateScores stateId (sci # rest) scores =
     (case (getAttribute sci ''item_id'', getAttribute sci ''value'') of
        (Some entityId, Some scoreValue) \<Rightarrow>
          if entityId \<noteq> [] \<and> scoreValue \<noteq> []
          then addStateScores stateId rest (setScore scores entityId stateId (StateScore scoreValue))
          else addStateScores stateId rest scores
      | _ \<Rightarrow> addStateScores stateId rest scores)"

fun normalScores ::
  "(string \<times> Feature) list \<Rightarrow> Element list \<Rightarrow> (string \<times> (string \<times> Score) list) list \<Rightarrow>
   (string \<times> (string \<times> Score) list) list" where
  "normalScores features [] scores = scores"
| "normalScores features (si # rest) scores =
     (case getAttribute si ''item_id'' of
        None \<Rightarrow> normalScores features rest scores
      | Some stateId \<Rightarrow>
          if stateId = [] \<or> map_of features stateId = None
          then normalScores features rest scores
          else normalScores features rest
                 (addStateScores stateId (selectAll si ''scored_item'') scores))"

text \<open>The same for the numeric scores: \<open>parseFloat(data.getAttribute('omin') || '0')\<close>.\<close>

fun addNumericScores ::
  "(string \<Rightarrow> jsnum) \<Rightarrow> string \<Rightarrow> Element list \<Rightarrow> (string \<times> (string \<times> Score) list) list \<Rightarrow>
   (string \<times> (string \<times> Score) list) list" where
  "addNumericScores pf featureId [] scores = scores"
| "addNumericScores pf featureId (sci # rest) scores =
     (case (select sci ''scored_data'', getAttribute sci ''item_id'') of
        (Some data, Some entityId) \<Rightarrow>
          if entityId \<noteq> []
          then addNumericScores pf featureId rest
                 (setScore scores entityId featureId
                    (NumericScore (pf (orElse (getAttribute data ''omin'') ''0''))
                                  (pf (orElse (getAttribute data ''omax'') ''0''))))
          else addNumericScores pf featureId rest scores
      | _ \<Rightarrow> addNumericScores pf featureId rest scores)"

fun numericScores ::
  "(string \<Rightarrow> jsnum) \<Rightarrow> (string \<times> Feature) list \<Rightarrow> Element list \<Rightarrow>
   (string \<times> (string \<times> Score) list) list \<Rightarrow> (string \<times> (string \<times> Score) list) list" where
  "numericScores pf features [] scores = scores"
| "numericScores pf features (si # rest) scores =
     (case getAttribute si ''item_id'' of
        None \<Rightarrow> numericScores pf features rest scores
      | Some featureId \<Rightarrow>
          if featureId = [] \<or> map_of features featureId = None
          then numericScores pf features rest scores
          else numericScores pf features rest
                 (addNumericScores pf featureId (selectAll si ''scored_item'') scores))"

text \<open>
  \<open>processScores\<close>: when \<open>normal.sco\<close> cannot be read from the nested \<open>.sco\<close> archive (or is
  empty) a warning goes to the console and the key data stay as they are.
\<close>

definition processScores :: "Platform \<Rightarrow> JSZip \<Rightarrow> string \<Rightarrow> string \<Rightarrow> KeyData \<Rightarrow> KeyData" where
  "processScores plat archive dataDirPath keyName keyData =
     (case readFromInnerZip plat archive (dataDirPath @ keyName @ ''.sco'') ''normal.sco'' of
        None \<Rightarrow> keyData
      | Some normalScoXml \<Rightarrow>
          if normalScoXml = [] then keyData
          else
            (let doc = parseFromString plat normalScoXml;
                 scores1 = normalScores (allFeatures keyData)
                             (docSelectChildren doc ''normal_score_data'' ''scoring_item'')
                             (entityScores keyData);
                 scores2 = numericScores (parseFloat plat) (allFeatures keyData)
                             (docSelectChildren doc ''numeric_score_data'' ''scoring_item'')
                             scores1
             in keyData\<lparr>entityScores := scores2\<rparr>))"

text \<open>
  \<open>processMedia\<close> with \<open>getBlobUrlFromZip\<close>, as far as the error log goes: a media item with
  details, a path and an item id whose file is not in the archive adds a message.
\<close>

fun mediaErrors :: "JSZip \<Rightarrow> string \<Rightarrow> Element list \<Rightarrow> string list \<Rightarrow> string list" where
  "mediaErrors archive rootPath [] errors = errors"
| "mediaErrors archive rootPath (mediaItem # rest) errors =
     (case (select mediaItem ''media_details'', getAttribute mediaItem ''media_path'') of
        (Some details, Some pathFromXml) \<Rightarrow>
          if pathFromXml = [] \<or> \<not> truthy (getAttribute details ''item_id'')
          then mediaErrors archive rootPath rest errors
          else
            (let fullPath = slashes (rootPath @ ''Media/'' @ pathFromXml)
             in case findFileInZip archive fullPath of
                  Some file \<Rightarrow> mediaErrors archive rootPath rest errors
                | None \<Rightarrow>
                    mediaErrors archive rootPath rest
                      (errors @ [''Media file not found in archive: '' @ fullPath]))
      | _ \<Rightarrow> mediaErrors archive rootPath rest errors)"

definition processMedia :: "JSZip \<Rightarrow> string \<Rightarrow> Element \<Rightarrow> KeyData \<Rightarrow> KeyData" where
  "processMedia archive rootPath keyDoc keyData =
     keyData\<lparr>parsingErrors :=
       mediaErrors archive rootPath (docSelectAll keyDoc [''media_item'']) (parsingErrors keyData)\<rparr>"

text \<open>
  The key data read from the document of \<open>key.data\<close>: the properties, the catalogs, the
  trees and the feature count. The score maps are empty and the error log is empty.
\<close>

definition parseKeyDocument :: "Element \<Rightarrow> string \<Rightarrow> LoadError + KeyData" where
  "parseKeyDocument keyDoc keyName =
     (let title = getProp keyDoc ''key_title'';
          catalog = addEntities (docSelectAll keyDoc [''entity_item'']) ([], [])
      in case addFeatures
                (filter (\<lambda>(el, anc). tagName el \<in> set [''feature_item'', ''state_item''])
                   (withAncestors [] keyDoc)) [] of
           Inl err \<Rightarrow> Inl err
         | Inr features \<Rightarrow>
             (let fTree = (case docSelect keyDoc ''feature_tree'' of
                             None \<Rightarrow> []
                           | Some featureTreeRoot \<Rightarrow>
                               nonNull (map (\<lambda>node. buildFeatureNode node features)
                                          (elements featureTreeRoot)));
                  eTree = (case docSelect keyDoc ''entity_tree'' of
                             None \<Rightarrow> []
                           | Some entityTreeRoot \<Rightarrow>
                               nonNull (map (\<lambda>node. buildEntityNode node (fst catalog))
                                          (elements entityTreeRoot)))
              in Inr \<lparr>keyTitle = (if title = [] then keyName else title),
                      keyAuthors = getProp keyDoc ''key_authors'',
                      keyDescription = getProp keyDoc ''key_description'',
                      allEntities = fst catalog, entityTree = eTree,
                      allFeatures = features, featureTree = fTree,
                      entityScores = snd catalog,
                      totalFeaturesCount = countAvailableFeatures fTree,
                      parsingErrors = []\<rparr>))"

text \<open>The rest of \<open>processKeyFromZip\<close> once \<open>key.data\<close> is read: the scores, then the media.\<close>

definition buildKeyData ::
  "Platform \<Rightarrow> JSZip \<Rightarrow> string \<Rightarrow> string \<Rightarrow> string \<Rightarrow> LoadError + KeyData" where
  "buildKeyData plat archive dataDirPath keyName keyDataXml =
     (let keyDoc = parseFromString plat keyDataXml
      in case parseKeyDocument keyDoc keyName of
           Inl err \<Rightarrow> Inl err
         | Inr keyData \<Rightarrow>
             Inr (processMedia archive (rootPathOf dataDirPath) keyDoc
                   (processScores plat archive dataDirPath keyName keyData)))"

definition processKeyFromZip :: "Platform \<Rightarrow> File \<Rightarrow> LoadError + KeyData" where
  "processKeyFromZip plat zipFile =
     (case loadAsync plat (file_data zipFile) of
        None \<Rightarrow> Inl FileUnreadable
      | Some archive \<Rightarrow>
          (let keyName = stripKeyExtension (file_name zipFile)
           in case find isDataDir archive of
                None \<Rightarrow> Inl DataDirNotFound
              | Some dataDirEntry \<Rightarrow>
                  (let dataDirPath = zo_name dataDirEntry;
                       innerDataZipPath = dataDirPath @ keyName @ ''.data''
                   in case readFromInnerZip plat archive innerDataZipPath ''key.data'' of
                        None \<Rightarrow> Inl (KeyDataNotFound innerDataZipPath)
                      | Some keyDataXml \<Rightarrow>
                          if keyDataXml = [] then Inl (KeyDataNotFound innerDataZipPath)
                          else buildKeyData plat archive dataDirPath keyName keyDataXml)))"

section \<open>Loading a file (App.handleFileSelect)\<close>

text \<open>
  The part of the application state the load writes: the key data are cleared and the chosen
  features reset before the parser runs; the parser's result or its error is stored after.
\<close>

record AppState =
  st_keyData :: "KeyData option"
  st_chosenFeatures :: "(string \<times> ChosenFeature) list"
  st_error :: "LoadError option"

definition handleFileSelect :: "Platform \<Rightarrow> File \<Rightarrow> AppState \<Rightarrow> AppState" where
  "handleFileSelect plat file st =
     (case processKeyFromZip plat file of
        Inr data \<Rightarrow> \<lparr>st_keyData = Some data, st_chosenFeatures = [], st_error = None\<rparr>
      | Inl err \<Rightarrow> \<lparr>st_keyData = None, st_chosenFeatures = [], st_error = Some err\<rparr>)"

text \<open>
  The errors for a required directory or file that is absent (the structure errors of the
  load).
\<close>

fun isStructureError :: "LoadError \<Rightarrow> bool" where
  "isStructureError DataDirNotFound = True"
| "isStructureError (KeyDataNotFound p) = True"
| "isStructureError _ = False"

section \<open>Vocabulary of the statements\<close>

text \<open>
  The feature count in the words of the specification, to compare with the code: the
  scorable nodes are the numeric nodes and the categorical nodes (recognised by a state as
  first child), looked for below grouping nodes only, never below a scorable node.
\<close>

definition isCategorical :: "FeatureNode \<Rightarrow> bool" where
  "isCategorical node = (fn_children node \<noteq> [] \<and> fn_isState (hd (fn_children node)))"

fun scorableNodes :: "FeatureNode list \<Rightarrow> FeatureNode list" where
  "scorableNodes [] = []"
| "scorableNodes (FeatureNode i n t s cs # nodes) =
     (if t = Some ''numeric'' \<or> isCategorical (FeatureNode i n t s cs)
      then [FeatureNode i n t s cs]
      else scorableNodes cs) @ scorableNodes nodes"

fun featureNodeIds :: "FeatureNode \<Rightarrow> string set" where
  "featureNodeIds (FeatureNode i n t s cs) = insert i (\<Union>c \<in> set cs. featureNodeIds c)"

definition featureTreeIds :: "FeatureNode list \<Rightarrow> string set" where
  "featureTreeIds nodes = (\<Union>n \<in> set nodes. featureNodeIds n)"

text \<open>The ids of a node and of everything below it, and of a whole tree.\<close>

fun nodeIds :: "EntityNode \<Rightarrow> string set" where
  "nodeIds (EntityNode i n cs g) = insert i (\<Union>c \<in> set cs. nodeIds c)"

definition treeIds :: "EntityNode list \<Rightarrow> string set" where
  "treeIds nodes = (\<Union>n \<in> set nodes. nodeIds n)"

text \<open>The ids of the group nodes among the nodes given (not of the nodes below them).\<close>

definition topLevelGroupIds :: "EntityNode list \<Rightarrow> string set" where
  "topLevelGroupIds nodes = set (map n_id (filter isGroup nodes))"

text \<open>\<open>allEntityIds\<close>: the keys of the entity catalog.\<close>

definition entityIds :: "KeyData \<Rightarrow> string set" where
  "entityIds kd = fst ` set (allEntities kd)"

section \<open>Sample data\<close>

text \<open>
  A stand-in for the builtin \<open>parseFloat\<close> on plain decimal numerals, used to run the model
  on concrete inputs: it skips leading blanks, reads an optional sign, then \<open>Infinity\<close> or
  digits with an optional fraction, and gives NaN when it finds no digit.
\<close>

definition isDigit :: "char \<Rightarrow> bool" where
  "isDigit c = (CHR ''0'' \<le> c \<and> c \<le> CHR ''9'')"

definition digitsValue :: "string \<Rightarrow> nat" where
  "digitsValue ds = foldl (\<lambda>a c. 10 * a + (of_char c - 48)) 0 ds"

definition decimalParse :: "string \<Rightarrow> jsnum" where
  "decimalParse s =
     (let t = dropWhile (\<lambda>c. c = CHR '' '') s;
          neg = (t \<noteq> [] \<and> hd t = CHR ''-'');
          u = (if t \<noteq> [] \<and> (hd t = CHR ''-'' \<or> hd t = CHR ''+'') then tl t else t);
          ip = takeWhile isDigit u;
          rest = dropWhile isDigit u;
          fp = (if rest \<noteq> [] \<and> hd rest = CHR ''.'' then takeWhile isDigit (tl rest) else [])
      in if take 8 u = ''Infinity'' then (if neg then NegInf else PosInf)
         else if ip = [] \<and> fp = [] then NaN
         else Fin ((if neg then - 1 else 1) *
                   (real (digitsValue ip) + real (digitsValue fp) / 10 ^ length fp)))"

text \<open>
  A key with a chain of three nested groups over the leaf \<open>E\<close>, a leaf \<open>A\<close> and a group
  \<open>H\<close> over the leaf \<open>B\<close>, one categorical feature \<open>C\<close> with the state \<open>F\<close>, and one
  numeric feature \<open>N\<close>. The groups have no scores. One of its two media files is missing.
\<close>

definition sampleFeature :: "string \<Rightarrow> FeatureType \<Rightarrow> bool \<Rightarrow> string option \<Rightarrow> string \<times> Feature" where
  "sampleFeature i t s p =
     (i, \<lparr>f_id = i, f_name = i, f_type = t, f_isState = s, parentName = p,
          base_unit = None, unit_prefix = None\<rparr>)"

definition sampleKey :: KeyData where
  "sampleKey =
     \<lparr>keyTitle = ''sample'', keyAuthors = [], keyDescription = [],
      allEntities =
        map (\<lambda>i. (i, \<lparr>e_id = i, e_name = i\<rparr>)) [''G1'', ''G2'', ''G3'', ''E'', ''A'', ''H'', ''B''],
      entityTree =
        [EntityNode ''G1'' ''G1''
           [EntityNode ''G2'' ''G2''
              [EntityNode ''G3'' ''G3'' [EntityNode ''E'' ''E'' [] False] True] True] True,
         EntityNode ''A'' ''A'' [] False,
         EntityNode ''H'' ''H'' [EntityNode ''B'' ''B'' [] False] True],
      allFeatures =
        [sampleFeature ''C'' (Some ''normal'') False None,
         sampleFeature ''F'' (Some ''state'') True (Some ''C''),
         sampleFeature ''N'' (Some ''numeric'') False None],
      featureTree =
        [FeatureNode ''C'' ''C'' (Some ''normal'') False
           [FeatureNode ''F'' ''F'' (Some ''state'') True []],
         FeatureNode ''N'' ''N'' (Some ''numeric'') False []],
      entityScores =
        [(''G1'', []), (''G2'', []), (''G3'', []),
         (''E'', [(''F'', StateScore ''1''), (''N'', NumericScore (Fin 2) (Fin 5))]),
         (''A'', [(''F'', StateScore ''0''), (''N'', NumericScore (Fin 2) (Fin 5))]),
         (''H'', []),
         (''B'', [(''F'', StateScore ''3'')])],
      totalFeaturesCount = 2,
      parsingErrors = [''Media file not found in archive: Key/Media/Images/b.jpg'']\<rparr>"

text \<open>
  The same key as an archive: the documents of \<open>key.data\<close> and \<open>normal.sco\<close>, the outer
  archive with the data directory, the two nested archives and one of the two media files,
  and a platform that decodes these byte strings. Three more files: the archive without the
  \<open>.sco\<close> entry, an archive without a data directory, and one with neither of the nested archives.
\<close>

definition entityNodeXml :: "string \<Rightarrow> Element list \<Rightarrow> Element" where
  "entityNodeXml i below =
     Element ''entity_node'' []
       (Element ''entity_item'' [(''item_id'', i), (''item_name'', i)] [] #
        (if below = [] then [] else [Element ''nodes'' [] below]))"

definition sampleKeyDoc :: Element where
  "sampleKeyDoc =
     Element ''key'' []
       [Element ''property'' [(''key'', ''key_title''), (''value'', ''sample'')] [],
        Element ''entity_tree'' []
          [entityNodeXml ''G1'' [entityNodeXml ''G2'' [entityNodeXml ''G3'' [entityNodeXml ''E'' []]]],
           entityNodeXml ''A'' [],
           entityNodeXml ''H'' [entityNodeXml ''B'' []]],
        Element ''feature_tree'' []
          [Element ''feature_node'' []
             [Element ''feature_item''
                [(''item_id'', ''C''), (''item_name'', ''C''), (''score_type'', ''normal'')] [],
              Element ''nodes'' []
                [Element ''feature_node'' []
                   [Element ''state_item'' [(''item_id'', ''F''), (''item_name'', ''F'')] []]]],
           Element ''feature_node'' []
             [Element ''feature_item''
                [(''item_id'', ''N''), (''item_name'', ''N''), (''score_type'', ''numeric'')] []]],
        Element ''media_item'' [(''media_path'', ''Images/a.jpg'')]
          [Element ''media_details'' [(''item_id'', ''A'')] []],
        Element ''media_item'' [(''media_path'', ''Images/b.jpg'')]
          [Element ''media_details'' [(''item_id'', ''B'')] []]]"

definition scoredState :: "string \<Rightarrow> string \<Rightarrow> Element" where
  "scoredState entityId code = Element ''scored_item'' [(''item_id'', entityId), (''value'', code)] []"

definition scoredRange :: "string \<Rightarrow> string \<Rightarrow> string \<Rightarrow> Element" where
  "scoredRange entityId lo hi =
     Element ''scored_item'' [(''item_id'', entityId)]
       [Element ''scored_data'' [(''omin'', lo), (''omax'', hi)] []]"

definition sampleScoDoc :: Element where
  "sampleScoDoc =
     Element ''scores'' []
       [Element ''normal_score_data'' []
          [Element ''scoring_item'' [(''item_id'', ''F'')]
             [scoredState ''E'' ''1'', scoredState ''A'' ''0'', scoredState ''B'' ''3'']],
        Element ''numeric_score_data'' []
          [Element ''scoring_item'' [(''item_id'', ''N'')]
             [scoredRange ''E'' ''2'' ''5'', scoredRange ''A'' ''2'' ''5'']]]"

definition zipEntry :: "string \<Rightarrow> bool \<Rightarrow> string \<Rightarrow> ZipObject" where
  "zipEntry n d b = \<lparr>zo_name = n, zo_dir = d, zo_data = b\<rparr>"

definition sampleArchive :: JSZip where
  "sampleArchive =
     [zipEntry ''Key/'' True [],
      zipEntry ''Key/Data/'' True [],
      zipEntry ''Key/Data/sample.data'' False ''<sample.data>'',
      zipEntry ''Key/Data/sample.sco'' False ''<sample.sco>'',
      zipEntry ''Key/Media/Images/a.jpg'' False ''<a.jpg>'']"

definition sampleArchiveNoSco :: JSZip where
  "sampleArchiveNoSco =
     [zipEntry ''Key/'' True [],
      zipEntry ''Key/Data/'' True [],
      zipEntry ''Key/Data/sample.data'' False ''<sample.data>'',
      zipEntry ''Key/Media/Images/a.jpg'' False ''<a.jpg>'']"

definition sampleArchiveNoData :: JSZip where
  "sampleArchiveNoData =
     [zipEntry ''Key/'' True [],
      zipEntry ''Key/readme.txt'' False ''hello'',
      zipEntry ''Key/docs/'' True []]"

definition sampleArchiveNoKeyData :: JSZip where
  "sampleArchiveNoKeyData =
     [zipEntry ''Key/'' True [],
      zipEntry ''Key/Data/'' True [],
      zipEntry ''Key/Media/Images/a.jpg'' False ''<a.jpg>'']"

definition samplePlatform :: Platform where
  "samplePlatform =
     \<lparr>loadAsync = map_of
        [(''<sample.zip>'', sampleArchive),
         (''<nosco.zip>'', sampleArchiveNoSco),
         (''<nodata.zip>'', sampleArchiveNoData),
         (''<nokey.zip>'', sampleArchiveNoKeyData),
         (''<sample.data>'', [zipEntry ''key.data'' False ''<key.data>'']),
         (''<sample.sco>'', [zipEntry ''normal.sco'' False ''<normal.sco>''])],
      parseFromString =
        (\<lambda>s. if s = ''<key.data>'' then sampleKeyDoc
             else if s = ''<normal.sco>'' then sampleScoDoc
             else Element ''parsererror'' [] []),
      parseFloat = decimalParse\<rparr>"

definition sampleFile :: "string \<Rightarrow> File" where
  "sampleFile bytes = \<lparr>file_name = ''sample.zip'', file_data = bytes\<rparr>"


text \<open>
  A feature of type \<open>text\<close> (which the catalog leaves out) over the numeric feature \<open>N\<close>, and
  an entity node with an id that is in no catalog over the leaf \<open>E\<close>.
\<close>

definition sampleTextNode :: Element where
  "sampleTextNode =
     Element ''feature_node'' []
       [Element ''feature_item''
          [(''item_id'', ''T''), (''item_name'', ''T''), (''score_type'', ''text'')] [],
        Element ''nodes'' []
          [Element ''feature_node'' []
             [Element ''feature_item''
                [(''item_id'', ''N''), (''item_name'', ''N''), (''score_type'', ''numeric'')] []]]]"

definition sampleUnknownNode :: Element where
  "sampleUnknownNode = entityNodeXml ''X'' [entityNodeXml ''E'' []]"

section \<open>Properties of the parser\<close>

subsection \<open>Helper lemmas\<close>

lemma set_nonNull: "set (nonNull os) = {x. Some x \<in> set os}"
  by (induction os rule: nonNull.induct) auto

lemma nonNull_append: "nonNull (xs @ ys) = nonNull xs @ nonNull ys"
  by (induction xs rule: nonNull.induct) auto

lemma buildEntityNode_ids:
  "buildEntityNode x entities = Some node \<Longrightarrow> nodeIds node \<subseteq> fst ` set entities"
proof (induction x entities arbitrary: node rule: buildEntityNode.induct)
  case (1 xmlNode entities)
  from "1.prems" obtain item i entity where
    item: "scopeChild xmlNode [''entity_item''] = Some item"
    and i: "getAttribute item ''item_id'' = Some i" "i \<noteq> []"
    and e: "map_of entities i = Some entity"
    by (auto simp: buildEntityNode.simps [of xmlNode] split: option.splits if_splits)
  define cs where "cs = (case scopeChild xmlNode [''nodes''] of None \<Rightarrow> []
     | Some container \<Rightarrow>
         nonNull (map (\<lambda>childNode. buildEntityNode childNode entities) (elements container)))"
  from "1.prems" item i e have node: "node = EntityNode i (e_name entity) cs (cs \<noteq> [])"
    by (simp add: buildEntityNode.simps [of xmlNode] cs_def Let_def)
  have "nodeIds c \<subseteq> fst ` set entities" if "c \<in> set cs" for c
  proof (cases "scopeChild xmlNode [''nodes'']")
    case None
    with that show ?thesis by (simp add: cs_def)
  next
    case (Some container)
    with that obtain child where "child \<in> set (elements container)"
      "buildEntityNode child entities = Some c"
      by (auto simp: cs_def set_nonNull)
    with "1.IH" [OF item i(1) _ e Some] i(2) show ?thesis by blast
  qed
  moreover have "i \<in> fst ` set entities"
    using e by (metis fst_conv image_eqI map_of_SomeD)
  ultimately show ?case by (auto simp: node)
qed

lemma buildFeatureNode_ids:
  "buildFeatureNode x features = Some node \<Longrightarrow> featureNodeIds node \<subseteq> fst ` set features"
proof (induction x features arbitrary: node rule: buildFeatureNode.induct)
  case (1 xmlNode features)
  from "1.prems" obtain item i feature where
    item: "scopeChild xmlNode [''feature_item'', ''state_item''] = Some item"
    and i: "getAttribute item ''item_id'' = Some i" "i \<noteq> []"
    and f: "map_of features i = Some feature"
    by (auto simp: buildFeatureNode.simps [of xmlNode] split: option.splits if_splits)
  define cs where "cs = (case scopeChild xmlNode [''nodes''] of None \<Rightarrow> []
     | Some container \<Rightarrow>
         nonNull (map (\<lambda>childNode. buildFeatureNode childNode features) (elements container)))"
  from "1.prems" item i f have node:
    "node = FeatureNode i (f_name feature) (f_type feature) (f_isState feature) cs"
    by (simp add: buildFeatureNode.simps [of xmlNode] cs_def)
  have "featureNodeIds c \<subseteq> fst ` set features" if "c \<in> set cs" for c
  proof (cases "scopeChild xmlNode [''nodes'']")
    case None
    with that show ?thesis by (simp add: cs_def)
  next
    case (Some container)
    with that obtain child where "child \<in> set (elements container)"
      "buildFeatureNode child features = Some c"
      by (auto simp: cs_def set_nonNull)
    with "1.IH" [OF item i(1) _ f Some] i(2) show ?thesis by blast
  qed
  moreover have "i \<in> fst ` set features"
    using f by (metis fst_conv image_eqI map_of_SomeD)
  ultimately show ?case by (auto simp: node)
qed


lemma processScores_frame:
  "allEntities (processScores plat archive d k kd) = allEntities kd \<and>
   entityTree (processScores plat archive d k kd) = entityTree kd \<and>
   allFeatures (processScores plat archive d k kd) = allFeatures kd \<and>
   featureTree (processScores plat archive d k kd) = featureTree kd \<and>
   parsingErrors (processScores plat archive d k kd) = parsingErrors kd"
  by (simp add: processScores_def Let_def split: option.splits)

lemma processMedia_frame:
  "allEntities (processMedia archive r doc kd) = allEntities kd \<and>
   entityTree (processMedia archive r doc kd) = entityTree kd \<and>
   allFeatures (processMedia archive r doc kd) = allFeatures kd \<and>
   featureTree (processMedia archive r doc kd) = featureTree kd \<and>
   entityScores (processMedia archive r doc kd) = entityScores kd"
  by (simp add: processMedia_def)

lemma parseKeyDocument_trees:
  assumes "parseKeyDocument keyDoc keyName = Inr kd"
  shows "treeIds (entityTree kd) \<subseteq> entityIds kd \<and>
         featureTreeIds (featureTree kd) \<subseteq> fst ` set (allFeatures kd)"
proof -
  from assms have
    et: "entityTree kd = (case docSelect keyDoc ''entity_tree'' of None \<Rightarrow> []
           | Some r \<Rightarrow> nonNull (map (\<lambda>node. buildEntityNode node (allEntities kd)) (elements r)))"
    and ft: "featureTree kd = (case docSelect keyDoc ''feature_tree'' of None \<Rightarrow> []
           | Some r \<Rightarrow> nonNull (map (\<lambda>node. buildFeatureNode node (allFeatures kd)) (elements r)))"
    by (auto simp: parseKeyDocument_def Let_def split: sum.splits cong: option.case_cong)
  have "nodeIds n \<subseteq> entityIds kd" if "n \<in> set (entityTree kd)" for n
  proof (cases "docSelect keyDoc ''entity_tree''")
    case None
    with that et show ?thesis by simp
  next
    case (Some r)
    with that et obtain x where "buildEntityNode x (allEntities kd) = Some n"
      by (auto simp: set_nonNull)
    from buildEntityNode_ids [OF this] show ?thesis by (simp add: entityIds_def)
  qed
  moreover have "featureNodeIds n \<subseteq> fst ` set (allFeatures kd)" if "n \<in> set (featureTree kd)" for n
  proof (cases "docSelect keyDoc ''feature_tree''")
    case None
    with that ft show ?thesis by simp
  next
    case (Some r)
    with that ft obtain x where "buildFeatureNode x (allFeatures kd) = Some n"
      by (auto simp: set_nonNull)
    from buildFeatureNode_ids [OF this] show ?thesis .
  qed
  ultimately show ?thesis
    unfolding treeIds_def featureTreeIds_def by blast
qed


lemma processKeyFromZip_Inr:
  assumes "processKeyFromZip plat file = Inr kd"
  obtains archive dir keyDataXml kd0 where
    "loadAsync plat (file_data file) = Some archive"
    "find isDataDir archive = Some dir"
    "readFromInnerZip plat archive
       (zo_name dir @ stripKeyExtension (file_name file) @ ''.data'') ''key.data'' = Some keyDataXml"
    "keyDataXml \<noteq> []"
    "parseKeyDocument (parseFromString plat keyDataXml) (stripKeyExtension (file_name file)) = Inr kd0"
    "kd = processMedia archive (rootPathOf (zo_name dir)) (parseFromString plat keyDataXml)
            (processScores plat archive (zo_name dir) (stripKeyExtension (file_name file)) kd0)"
proof -
  let ?kn = "stripKeyExtension (file_name file)"
  from assms obtain archive where a: "loadAsync plat (file_data file) = Some archive"
    by (cases "loadAsync plat (file_data file)") (simp_all add: processKeyFromZip_def)
  from assms a obtain dir where d: "find isDataDir archive = Some dir"
    by (cases "find isDataDir archive") (simp_all add: processKeyFromZip_def)
  from assms a d obtain xml where
    x: "readFromInnerZip plat archive (zo_name dir @ ?kn @ ''.data'') ''key.data'' = Some xml"
    by (cases "readFromInnerZip plat archive (zo_name dir @ ?kn @ ''.data'') ''key.data''")
      (simp_all add: processKeyFromZip_def Let_def)
  from assms a d x have ne: "xml \<noteq> []"
    by (auto simp: processKeyFromZip_def Let_def)
  with assms a d x have b: "buildKeyData plat archive (zo_name dir) ?kn xml = Inr kd"
    by (simp add: processKeyFromZip_def Let_def)
  then obtain kd0 where k: "parseKeyDocument (parseFromString plat xml) ?kn = Inr kd0"
    by (cases "parseKeyDocument (parseFromString plat xml) ?kn")
      (simp_all add: buildKeyData_def Let_def)
  with b have "kd = processMedia archive (rootPathOf (zo_name dir)) (parseFromString plat xml)
            (processScores plat archive (zo_name dir) ?kn kd0)"
    by (simp add: buildKeyData_def Let_def)
  with a d x ne k show thesis by (rule that)
qed


lemma dropped_entity:
  assumes "scopeChild x [''entity_item''] = Some item \<and> getAttribute item ''item_id'' = Some i \<and>
    map_of entities i = None"
  shows "buildEntityNode x entities = None"
  using assms by (simp add: buildEntityNode.simps [of x])

lemma dropped_feature:
  assumes "scopeChild y [''feature_item'', ''state_item''] = Some fitem \<and>
    getAttribute fitem ''item_id'' = Some j \<and> map_of features j = None"
  shows "buildFeatureNode y features = None"
  using assms by (simp add: buildFeatureNode.simps [of y])

lemma loaded_trees:
  assumes ok: "processKeyFromZip plat file = Inr kd"
  shows "treeIds (entityTree kd) \<subseteq> entityIds kd \<and>
      featureTreeIds (featureTree kd) \<subseteq> fst ` set (allFeatures kd)"
proof (rule processKeyFromZip_Inr [OF ok])
  fix archive dir keyDataXml kd0
  assume kd0: "parseKeyDocument (parseFromString plat keyDataXml) (stripKeyExtension (file_name file)) = Inr kd0"
    and kd: "kd = processMedia archive (rootPathOf (zo_name dir)) (parseFromString plat keyDataXml)
            (processScores plat archive (zo_name dir) (stripKeyExtension (file_name file)) kd0)"
  have same: "entityTree kd = entityTree kd0" "allEntities kd = allEntities kd0"
    "featureTree kd = featureTree kd0" "allFeatures kd = allFeatures kd0"
    unfolding kd by (simp_all only: processMedia_frame processScores_frame)
  from parseKeyDocument_trees [OF kd0]
  show ?thesis
    unfolding entityIds_def same .
qed

lemma countAvailableFeatures_append:
  "countAvailableFeatures (xs @ ys) = countAvailableFeatures xs + countAvailableFeatures ys"
  by (induction xs rule: countAvailableFeatures.induct) simp_all

lemma count_is_length_scorable:
  "countAvailableFeatures nodes = length (scorableNodes nodes)"
  by (induction nodes rule: countAvailableFeatures.induct) (simp_all add: isCategorical_def)

lemma scorable_are_features:
  "n \<in> set (scorableNodes nodes) \<Longrightarrow> fn_type n = Some ''numeric'' \<or> isCategorical n"
  by (induction nodes rule: scorableNodes.induct) (auto split: if_splits)




subsection \<open>The feature count\<close>

text \<open>
  C7. \<open>countAvailableFeatures\<close> counts a numeric node as 1 and a categorical node (one whose
  first child is a state) as 1, whatever is below them: the states of a categorical feature
  are never visited. A node that is neither and has children (a grouping node) is not
  counted itself and contributes the count of its children; one without children counts 0.
  The count of a list is the sum over its nodes. Altogether the count is the number of
  numeric or categorical nodes reached from the roots through grouping nodes.
\<close>

theorem countAvailableFeatures_cases:
  "(fn_type node = Some ''numeric'' \<longrightarrow> countAvailableFeatures [node] = 1) \<and>
   (fn_type node \<noteq> Some ''numeric'' \<and> fn_children node \<noteq> [] \<and>
      fn_isState (hd (fn_children node)) \<longrightarrow> countAvailableFeatures [node] = 1) \<and>
   (fn_type node \<noteq> Some ''numeric'' \<and> fn_children node \<noteq> [] \<and>
      \<not> fn_isState (hd (fn_children node)) \<longrightarrow>
        countAvailableFeatures [node] = countAvailableFeatures (fn_children node)) \<and>
   (fn_type node \<noteq> Some ''numeric'' \<and> fn_children node = [] \<longrightarrow>
        countAvailableFeatures [node] = 0) \<and>
   countAvailableFeatures (node # nodes) =
     countAvailableFeatures [node] + countAvailableFeatures nodes \<and>
   countAvailableFeatures nodes = length (scorableNodes nodes) \<and>
   (\<forall>n \<in> set (scorableNodes nodes). fn_type n = Some ''numeric'' \<or> isCategorical n)"
proof -
  have "countAvailableFeatures (node # nodes) =
      countAvailableFeatures [node] + countAvailableFeatures nodes"
    using countAvailableFeatures_append [of "[node]" nodes] by simp
  moreover have "\<forall>n \<in> set (scorableNodes nodes). fn_type n = Some ''numeric'' \<or> isCategorical n"
    using scorable_are_features by blast
  ultimately show ?thesis
    by (cases node) (simp add: count_is_length_scorable [of nodes])
qed

theorem countAvailableFeatures_cases_witness:
  "countAvailableFeatures [FeatureNode ''N'' ''N'' (Some ''numeric'') False []] = 1 \<and>
   countAvailableFeatures
     [FeatureNode ''C'' ''C'' (Some ''normal'') False
        [FeatureNode ''F'' ''F'' (Some ''state'') True [],
         FeatureNode ''F2'' ''F2'' (Some ''state'') True []]] = 1 \<and>
   countAvailableFeatures [FeatureNode ''Grp'' ''Grp'' None False (featureTree sampleKey)] =
     countAvailableFeatures (featureTree sampleKey) \<and>
   countAvailableFeatures [FeatureNode ''F'' ''F'' (Some ''state'') True []] = 0 \<and>
   countAvailableFeatures (featureTree sampleKey) = 2"
  using
    countAvailableFeatures_cases [of "FeatureNode ''N'' ''N'' (Some ''numeric'') False []" "[]"]
    countAvailableFeatures_cases
      [of "FeatureNode ''C'' ''C'' (Some ''normal'') False
             [FeatureNode ''F'' ''F'' (Some ''state'') True [],
              FeatureNode ''F2'' ''F2'' (Some ''state'') True []]" "[]"]
    countAvailableFeatures_cases
      [of "FeatureNode ''Grp'' ''Grp'' None False (featureTree sampleKey)" "featureTree sampleKey"]
    countAvailableFeatures_cases [of "FeatureNode ''F'' ''F'' (Some ''state'') True []" "[]"]
  by (simp add: sampleKey_def isCategorical_def)

subsection \<open>The trees refer to the catalogs only\<close>

text \<open>
  C6. Every id in the feature tree and in the entity tree of loaded key data is a key of the
  feature catalog and of the entity catalog; so is every id of a node either builder returns,
  for the catalog it is given. A node whose item id is not in the catalog is dropped, and the
  tree built from its siblings is the one built without it: nothing below it is attached
  anywhere.
\<close>

theorem tree_ids_in_catalog:
  "(processKeyFromZip plat file = Inr kd \<longrightarrow>
      treeIds (entityTree kd) \<subseteq> entityIds kd \<and>
      featureTreeIds (featureTree kd) \<subseteq> fst ` set (allFeatures kd)) \<and>
   (buildEntityNode x entities = Some enode \<longrightarrow> nodeIds enode \<subseteq> fst ` set entities) \<and>
   (buildFeatureNode y features = Some fnode \<longrightarrow>
      featureNodeIds fnode \<subseteq> fst ` set features) \<and>
   (scopeChild x [''entity_item''] = Some item \<and> getAttribute item ''item_id'' = Some i \<and>
    map_of entities i = None \<longrightarrow>
      buildEntityNode x entities = None \<and>
      nonNull (map (\<lambda>n. buildEntityNode n entities) (before @ x # after)) =
        nonNull (map (\<lambda>n. buildEntityNode n entities) (before @ after))) \<and>
   (scopeChild y [''feature_item'', ''state_item''] = Some fitem \<and>
    getAttribute fitem ''item_id'' = Some j \<and> map_of features j = None \<longrightarrow>
      buildFeatureNode y features = None \<and>
      nonNull (map (\<lambda>n. buildFeatureNode n features) (fbefore @ y # fafter)) =
        nonNull (map (\<lambda>n. buildFeatureNode n features) (fbefore @ fafter)))"
proof (intro conjI impI)
  assume "processKeyFromZip plat file = Inr kd"
  from loaded_trees [OF this]
  show "treeIds (entityTree kd) \<subseteq> entityIds kd"
    "featureTreeIds (featureTree kd) \<subseteq> fst ` set (allFeatures kd)"
    by (rule conjunct1, rule conjunct2)
next
  assume "buildEntityNode x entities = Some enode"
  then show "nodeIds enode \<subseteq> fst ` set entities" by (rule buildEntityNode_ids)
next
  assume "buildFeatureNode y features = Some fnode"
  then show "featureNodeIds fnode \<subseteq> fst ` set features" by (rule buildFeatureNode_ids)
next
  assume "scopeChild x [''entity_item''] = Some item \<and> getAttribute item ''item_id'' = Some i \<and>
    map_of entities i = None"
  then show none: "buildEntityNode x entities = None"
    by (rule dropped_entity)
  show "nonNull (map (\<lambda>n. buildEntityNode n entities) (before @ x # after)) =
        nonNull (map (\<lambda>n. buildEntityNode n entities) (before @ after))"
    by (simp add: nonNull_append none)
next
  assume "scopeChild y [''feature_item'', ''state_item''] = Some fitem \<and>
    getAttribute fitem ''item_id'' = Some j \<and> map_of features j = None"
  then show none: "buildFeatureNode y features = None"
    by (rule dropped_feature)
  show "nonNull (map (\<lambda>n. buildFeatureNode n features) (fbefore @ y # fafter)) =
        nonNull (map (\<lambda>n. buildFeatureNode n features) (fbefore @ fafter))"
    by (simp add: nonNull_append none)
qed

theorem tree_ids_in_catalog_witness:
  "processKeyFromZip samplePlatform (sampleFile ''<sample.zip>'') = Inr sampleKey \<and>
   treeIds (entityTree sampleKey) \<subseteq> entityIds sampleKey \<and>
   featureTreeIds (featureTree sampleKey) \<subseteq> fst ` set (allFeatures sampleKey) \<and>
   buildEntityNode sampleUnknownNode (allEntities sampleKey) = None \<and>
   nonNull (map (\<lambda>n. buildEntityNode n (allEntities sampleKey))
       ([entityNodeXml ''A'' []] @ sampleUnknownNode # [])) =
     nonNull (map (\<lambda>n. buildEntityNode n (allEntities sampleKey)) ([entityNodeXml ''A'' []] @ [])) \<and>
   buildFeatureNode sampleTextNode (allFeatures sampleKey) = None \<and>
   nonNull (map (\<lambda>n. buildFeatureNode n (allFeatures sampleKey)) ([] @ sampleTextNode # [])) =
     nonNull (map (\<lambda>n. buildFeatureNode n (allFeatures sampleKey)) ([] @ []))"
proof -
  have load: "processKeyFromZip samplePlatform (sampleFile ''<sample.zip>'') = Inr sampleKey"
    by code_simp
  have e: "scopeChild sampleUnknownNode [''entity_item''] =
        Some (Element ''entity_item'' [(''item_id'', ''X''), (''item_name'', ''X'')] []) \<and>
      getAttribute (Element ''entity_item'' [(''item_id'', ''X''), (''item_name'', ''X'')] [])
        ''item_id'' = Some ''X'' \<and>
      map_of (allEntities sampleKey) ''X'' = None"
    by code_simp
  have f: "scopeChild sampleTextNode [''feature_item'', ''state_item''] =
        Some (Element ''feature_item''
          [(''item_id'', ''T''), (''item_name'', ''T''), (''score_type'', ''text'')] []) \<and>
      getAttribute (Element ''feature_item''
          [(''item_id'', ''T''), (''item_name'', ''T''), (''score_type'', ''text'')] [])
        ''item_id'' = Some ''T'' \<and>
      map_of (allFeatures sampleKey) ''T'' = None"
    by code_simp
  from tree_ids_in_catalog
    [of samplePlatform "sampleFile ''<sample.zip>''" sampleKey sampleUnknownNode
      "allEntities sampleKey" _ sampleTextNode "allFeatures sampleKey" _
      "Element ''entity_item'' [(''item_id'', ''X''), (''item_name'', ''X'')] []" "''X''"
      "[entityNodeXml ''A'' []]" "[]"
      "Element ''feature_item''
          [(''item_id'', ''T''), (''item_name'', ''T''), (''score_type'', ''text'')] []" "''T''"
      "[]" "[]"]
    load e f
  show ?thesis by blast
qed

subsection \<open>A missing data directory\<close>

text \<open>
  C8. When the archive has no directory entry whose name, in lower case and with \<open>/\<close> as the
  separator, ends in \<open>data/\<close>, the load fails with the structure error for the data directory
  and returns no key data; the application is left with no key data and that error.
\<close>

theorem missing_data_dir_fails:
  assumes "loadAsync plat (file_data file) = Some archive"
    and "\<forall>f \<in> set archive. \<not> isDataDir f"
  shows "processKeyFromZip plat file = Inl DataDirNotFound \<and>
         isStructureError DataDirNotFound \<and>
         handleFileSelect plat file st =
           \<lparr>st_keyData = None, st_chosenFeatures = [], st_error = Some DataDirNotFound\<rparr>"
proof -
  from assms(2) have "find isDataDir archive = None"
    by (simp add: find_None_iff)
  with assms(1) have "processKeyFromZip plat file = Inl DataDirNotFound"
    by (simp add: processKeyFromZip_def)
  then show ?thesis by (simp add: handleFileSelect_def)
qed

theorem missing_data_dir_fails_witness:
  "loadAsync samplePlatform (file_data (sampleFile ''<nodata.zip>'')) = Some sampleArchiveNoData \<and>
   processKeyFromZip samplePlatform (sampleFile ''<nodata.zip>'') = Inl DataDirNotFound \<and>
   handleFileSelect samplePlatform (sampleFile ''<nodata.zip>'')
       \<lparr>st_keyData = Some sampleKey, st_chosenFeatures = [], st_error = None\<rparr> =
     \<lparr>st_keyData = None, st_chosenFeatures = [], st_error = Some DataDirNotFound\<rparr>"
proof -
  have a: "loadAsync samplePlatform (file_data (sampleFile ''<nodata.zip>'')) = Some sampleArchiveNoData"
    by code_simp
  have b: "\<forall>f \<in> set sampleArchiveNoData. \<not> isDataDir f"
    by code_simp
  from missing_data_dir_fails [OF a b] a show ?thesis by blast
qed

subsection \<open>A missing score archive\<close>




section \<open>Properties of the matching engine\<close>

subsection \<open>Helper lemmas\<close>

lemma hasMismatch_iff:
  "hasMismatch pf kd e cs \<longleftrightarrow>
     (\<exists>(fid, c) \<in> set cs. case map_of (allFeatures kd) fid of None \<Rightarrow> False
        | Some f \<Rightarrow> isMismatch pf f (scoreOf kd e fid) c)"
proof (induction cs)
  case Nil
  then show ?case by simp
next
  case (Cons p cs)
  obtain fid c where p: "p = (fid, c)" by (cases p)
  show ?case
  proof (cases "map_of (allFeatures kd) fid")
    case None
    with Cons p show ?thesis by simp
  next
    case (Some f)
    with Cons p show ?thesis by simp
  qed
qed

lemma scanNodes_result:
  "scanNodes ns i r c = (i', r', c') \<Longrightarrow>
     \<exists>D. D \<subseteq> topLevelGroupIds ns - r \<and> i' = i \<union> D \<and> r' = r \<union> D"
proof (induction ns arbitrary: i r c)
  case Nil
  then show ?case by auto
next
  case (Cons n ns)
  show ?case
  proof (cases "isGroup n \<and> n_id n \<notin> r \<and> list_ex (\<lambda>child. n_id child \<in> r) (children n)")
    case True
    with Cons.prems have "scanNodes ns (insert (n_id n) i) (insert (n_id n) r) True = (i', r', c')"
      by simp
    from Cons.IH [OF this] obtain D where
      D: "D \<subseteq> topLevelGroupIds ns - insert (n_id n) r"
        "i' = insert (n_id n) i \<union> D" "r' = insert (n_id n) r \<union> D"
      by blast
    have "insert (n_id n) D \<subseteq> topLevelGroupIds (n # ns) - r"
      using D(1) True by (auto simp: topLevelGroupIds_def)
    moreover have "i' = i \<union> insert (n_id n) D" "r' = r \<union> insert (n_id n) D"
      using D(2,3) by auto
    ultimately show ?thesis by blast
  next
    case False
    with Cons.prems have "scanNodes ns i r c = (i', r', c')"
      by (auto split: if_splits)
    from Cons.IH [OF this] obtain D where
      D: "D \<subseteq> topLevelGroupIds ns - r" "i' = i \<union> D" "r' = r \<union> D"
      by blast
    have "D \<subseteq> topLevelGroupIds (n # ns) - r"
      using D(1) by (auto simp: topLevelGroupIds_def)
    with D(2,3) show ?thesis by blast
  qed
qed

lemma indirectLoop_result:
  "indirectLoop ns i r = (i', r') \<Longrightarrow>
     \<exists>D. D \<subseteq> topLevelGroupIds ns - r \<and> i' = i \<union> D \<and> r' = r \<union> D"
proof (induction ns i r rule: indirectLoop.induct)
  case (1 nodes indirect remaining)
  obtain i1 r1 ch where pass: "buildIndirectHierarchy nodes indirect remaining = (i1, r1, ch)"
    by (cases "buildIndirectHierarchy nodes indirect remaining") auto
  then have "scanNodes nodes indirect remaining False = (i1, r1, ch)"
    by (simp add: buildIndirectHierarchy_def)
  from scanNodes_result [OF this] obtain D1 where
    D1: "D1 \<subseteq> topLevelGroupIds nodes - remaining"
      "i1 = indirect \<union> D1" "r1 = remaining \<union> D1"
    by blast
  show ?case
  proof (cases ch)
    case False
    with pass "1.prems" have "i' = i1" "r' = r1" by simp_all
    with D1 show ?thesis by blast
  next
    case True
    with pass "1.prems" have "indirectLoop nodes i1 r1 = (i', r')" by simp
    from "1.IH" [OF pass [symmetric] refl True this] obtain D2 where
      D2: "D2 \<subseteq> topLevelGroupIds nodes - r1" "i' = i1 \<union> D2" "r' = r1 \<union> D2"
      by blast
    have "D1 \<union> D2 \<subseteq> topLevelGroupIds nodes - remaining"
      using D1(1,3) D2(1) by auto
    moreover have "i' = indirect \<union> (D1 \<union> D2)" "r' = remaining \<union> (D1 \<union> D2)"
      using D1(2,3) D2(2,3) by auto
    ultimately show ?thesis by blast
  qed
qed



lemma self_in_nodeIds: "n_id n \<in> nodeIds n"
  by (cases n) simp

lemma top_level_in_treeIds: "n \<in> set nodes \<Longrightarrow> n_id n \<in> treeIds nodes"
  using self_in_nodeIds by (auto simp: treeIds_def)

lemma computeMatches_sets:
  assumes "chosen \<noteq> []"
  obtains D where
    "D \<subseteq> topLevelGroupIds (entityTree kd)"
    "D \<inter> directMatches (computeMatches pf (Some kd) chosen) = {}"
    "directlyDiscarded (computeMatches pf (Some kd) chosen) =
       {e \<in> entityIds kd. hasMismatch pf kd e chosen}"
    "directMatches (computeMatches pf (Some kd) chosen) =
       {e \<in> entityIds kd. \<not> hasMismatch pf kd e chosen}"
    "indirectMatches (computeMatches pf (Some kd) chosen) = D"
    "discardedEntityIds (computeMatches pf (Some kd) chosen) =
       entityIds kd - (directMatches (computeMatches pf (Some kd) chosen) \<union> D)"
proof -
  define ids where "ids = map fst (allEntities kd)"
  define dd where "dd = filter (\<lambda>e. hasMismatch pf kd e chosen) ids"
  define direct where "direct = filter (\<lambda>i. i \<notin> set dd) ids"
  obtain ind rem where loop: "indirectLoop (entityTree kd) {} (set direct) = (ind, rem)"
    by (cases "indirectLoop (entityTree kd) {} (set direct)") auto
  from indirectLoop_result [OF loop] obtain D where
    D: "D \<subseteq> topLevelGroupIds (entityTree kd) - set direct"
      "ind = D" "rem = set direct \<union> D"
    by auto
  have res: "computeMatches pf (Some kd) chosen =
      \<lparr>directMatches = set direct, indirectMatches = ind,
       discardedEntityIds = set (filter (\<lambda>i. i \<notin> rem) ids),
       directlyDiscarded = set dd\<rparr>"
    using assms loop by (simp add: computeMatches_def Let_def ids_def dd_def direct_def)
  have ids: "set ids = entityIds kd" by (simp add: ids_def entityIds_def)
  show thesis
  proof (rule that [of D])
    show "D \<subseteq> topLevelGroupIds (entityTree kd)" using D(1) by auto
    show "D \<inter> directMatches (computeMatches pf (Some kd) chosen) = {}"
      using D(1) by (auto simp: res)
    show "directlyDiscarded (computeMatches pf (Some kd) chosen) =
       {e \<in> entityIds kd. hasMismatch pf kd e chosen}"
      by (auto simp: res dd_def ids)
    show "directMatches (computeMatches pf (Some kd) chosen) =
       {e \<in> entityIds kd. \<not> hasMismatch pf kd e chosen}"
      by (auto simp: res direct_def dd_def ids)
    show "indirectMatches (computeMatches pf (Some kd) chosen) = D"
      by (simp add: res D(2))
    show "discardedEntityIds (computeMatches pf (Some kd) chosen) =
       entityIds kd - (directMatches (computeMatches pf (Some kd) chosen) \<union> D)"
      by (auto simp: res D(3) ids)
  qed
qed

lemma direct_iff:
  "chosen \<noteq> [] \<Longrightarrow> e \<in> directMatches (computeMatches pf (Some kd) chosen) \<longleftrightarrow>
     e \<in> entityIds kd \<and> \<not> hasMismatch pf kd e chosen"
  by (rule computeMatches_sets [of chosen kd pf]) auto

lemma directlyDiscarded_iff:
  "chosen \<noteq> [] \<Longrightarrow> e \<in> directlyDiscarded (computeMatches pf (Some kd) chosen) \<longleftrightarrow>
     e \<in> entityIds kd \<and> hasMismatch pf kd e chosen"
  by (rule computeMatches_sets [of chosen kd pf]) auto

lemma discarded_iff:
  assumes "chosen \<noteq> []"
  shows "e \<in> discardedEntityIds (computeMatches pf (Some kd) chosen) \<longleftrightarrow>
     e \<in> entityIds kd \<and> hasMismatch pf kd e chosen \<and>
     e \<notin> indirectMatches (computeMatches pf (Some kd) chosen)"
  by (rule computeMatches_sets [OF assms, of kd pf]) auto

lemma indirect_top_level_groups:
  "indirectMatches (computeMatches pf (Some kd) chosen)
     \<subseteq> topLevelGroupIds (entityTree kd)"
proof (cases "chosen = []")
  case True
  then show ?thesis by (simp add: computeMatches_def)
next
  case False
  show ?thesis by (rule computeMatches_sets [OF False, of kd pf]) auto
qed

lemma hasMismatch_append:
  "hasMismatch pf kd e (xs @ ys) \<longleftrightarrow> hasMismatch pf kd e xs \<or> hasMismatch pf kd e ys"
  by (auto simp: hasMismatch_iff)

lemmas sample_simps = sampleKey_def sampleFeature_def entityIds_def scoreOf_def computeMatches_def
  isMismatch_def buildIndirectHierarchy_def

subsection \<open>Empty constraint set\<close>

text \<open>
  C5. With an empty constraint set, the direct matches are all the entity ids of the catalog
  (leaves and groups), and the indirect and the discarded sets are empty.
\<close>

theorem computeMatches_no_constraints:
  "directMatches (computeMatches pf (Some kd) []) = entityIds kd \<and>
   indirectMatches (computeMatches pf (Some kd) []) = {} \<and>
   discardedEntityIds (computeMatches pf (Some kd) []) = {}"
  by (simp add: computeMatches_def entityIds_def)

theorem computeMatches_no_constraints_witness:
  "directMatches (computeMatches decimalParse (Some sampleKey) []) =
     {''G1'', ''G2'', ''G3'', ''E'', ''A'', ''H'', ''B''} \<and>
   indirectMatches (computeMatches decimalParse (Some sampleKey) []) = {} \<and>
   discardedEntityIds (computeMatches decimalParse (Some sampleKey) []) = {}"
  using computeMatches_no_constraints [of decimalParse sampleKey]
  by (simp add: entityIds_def sampleKey_def)

subsection \<open>State constraints\<close>

text \<open>
  C2. For a chosen constraint on a feature of type \<open>state\<close>, the test counts a mismatch
  exactly when the entity has no score for the feature id or the stored state code is
  \<open>"0"\<close>; the codes \<open>"1"\<close> to \<open>"5"\<close> are matches. So the loop discards an entity scored
  \<open>"0"\<close> for a chosen state: it is put in \<open>directlyDiscarded\<close>, is no direct match, and is in
  the discarded set unless it is a root group (which the indirect pass may retain). An
  entity with any other code for a chosen state is not discarded by it: the constraint
  leaves the verdict of the loop as it is without it, and when it is the only one chosen the
  entity is a direct match and is not discarded.
\<close>

theorem state_constraint_mismatch:
  assumes "f_type feature = Some ''state''"
  shows "(isMismatch pf feature score choice \<longleftrightarrow>
            score = None \<or> score = Some (StateScore ''0'')) \<and>
         (\<forall>v \<in> {''1'', ''2'', ''3'', ''4'', ''5''}.
            \<not> isMismatch pf feature (Some (StateScore v)) choice) \<and>
         (map_of (allFeatures kd) fid = Some feature \<and> (fid, choice) \<in> set chosen \<and>
          e \<in> entityIds kd \<and> scoreOf kd e fid = Some (StateScore ''0'') \<longrightarrow>
            e \<in> directlyDiscarded (computeMatches pf (Some kd) chosen) \<and>
            e \<notin> directMatches (computeMatches pf (Some kd) chosen) \<and>
            (e \<notin> topLevelGroupIds (entityTree kd) \<longrightarrow>
               e \<in> discardedEntityIds (computeMatches pf (Some kd) chosen))) \<and>
         (map_of (allFeatures kd) fid = Some feature \<and> e \<in> entityIds kd \<and>
          scoreOf kd e fid = Some (StateScore v) \<and> v \<noteq> ''0'' \<longrightarrow>
            e \<in> directMatches (computeMatches pf (Some kd) [(fid, choice)]) \<and>
            e \<notin> directlyDiscarded (computeMatches pf (Some kd) [(fid, choice)]) \<and>
            e \<notin> discardedEntityIds (computeMatches pf (Some kd) [(fid, choice)]) \<and>
            hasMismatch pf kd e (before @ (fid, choice) # after) =
              hasMismatch pf kd e (before @ after))"
proof (intro conjI impI ballI)
  show iff: "isMismatch pf feature score choice \<longleftrightarrow>
      score = None \<or> score = Some (StateScore ''0'')" for score
  proof (cases score)
    case None
    then show ?thesis by (simp add: isMismatch_def)
  next
    case (Some sc)
    with assms show ?thesis by (cases sc) (simp_all add: isMismatch_def)
  qed
  show "\<not> isMismatch pf feature (Some (StateScore v)) choice"
    if "v \<in> {''1'', ''2'', ''3'', ''4'', ''5''}" for v
    using that by (auto simp: iff)
next
  assume a: "map_of (allFeatures kd) fid = Some feature \<and> (fid, choice) \<in> set chosen \<and>
          e \<in> entityIds kd \<and> scoreOf kd e fid = Some (StateScore ''0'')"
  have mm: "isMismatch pf feature (Some (StateScore ''0'')) choice"
    using assms by (simp add: isMismatch_def)
  from a have ne: "chosen \<noteq> []" by auto
  from a mm have hm: "hasMismatch pf kd e chosen"
    unfolding hasMismatch_iff by (intro bexI [of _ "(fid, choice)"]) auto
  show "e \<in> directlyDiscarded (computeMatches pf (Some kd) chosen)"
    using a hm by (simp add: directlyDiscarded_iff [OF ne])
  show "e \<notin> directMatches (computeMatches pf (Some kd) chosen)"
    using hm by (simp add: direct_iff [OF ne])
  show "e \<in> discardedEntityIds (computeMatches pf (Some kd) chosen)"
    if "e \<notin> topLevelGroupIds (entityTree kd)"
    using that a hm indirect_top_level_groups [of pf kd chosen]
    by (auto simp: discarded_iff [OF ne])
next
  assume a: "map_of (allFeatures kd) fid = Some feature \<and> e \<in> entityIds kd \<and>
          scoreOf kd e fid = Some (StateScore v) \<and> v \<noteq> ''0''"
  have nm: "\<not> isMismatch pf feature (Some (StateScore v)) choice"
    using assms a by (simp add: isMismatch_def)
  with a have hm: "\<not> hasMismatch pf kd e [(fid, choice)]" by simp
  show "e \<in> directMatches (computeMatches pf (Some kd) [(fid, choice)])"
    using a hm by (simp add: direct_iff)
  show "e \<notin> directlyDiscarded (computeMatches pf (Some kd) [(fid, choice)])"
    using hm by (simp add: directlyDiscarded_iff)
  show "e \<notin> discardedEntityIds (computeMatches pf (Some kd) [(fid, choice)])"
    using hm by (simp add: discarded_iff)
  show "hasMismatch pf kd e (before @ (fid, choice) # after) =
      hasMismatch pf kd e (before @ after)"
    using a nm by (simp add: hasMismatch_append)
qed

theorem state_constraint_mismatch_witness:
  "isMismatch decimalParse (snd (sampleFeature ''F'' (Some ''state'') True (Some ''C'')))
     (Some (StateScore ''0'')) \<lparr>cf_value = BoolValue True\<rparr> \<and>
   \<not> isMismatch decimalParse (snd (sampleFeature ''F'' (Some ''state'') True (Some ''C'')))
     (Some (StateScore ''3'')) \<lparr>cf_value = BoolValue True\<rparr> \<and>
   ''A'' \<in> directlyDiscarded (computeMatches decimalParse (Some sampleKey)
       [(''F'', \<lparr>cf_value = BoolValue True\<rparr>)]) \<and>
   ''A'' \<notin> directMatches (computeMatches decimalParse (Some sampleKey)
       [(''F'', \<lparr>cf_value = BoolValue True\<rparr>)]) \<and>
   ''A'' \<in> discardedEntityIds (computeMatches decimalParse (Some sampleKey)
       [(''F'', \<lparr>cf_value = BoolValue True\<rparr>)]) \<and>
   ''B'' \<in> directMatches (computeMatches decimalParse (Some sampleKey)
       [(''F'', \<lparr>cf_value = BoolValue True\<rparr>)]) \<and>
   ''B'' \<notin> discardedEntityIds (computeMatches decimalParse (Some sampleKey)
       [(''F'', \<lparr>cf_value = BoolValue True\<rparr>)])"
proof -
  let ?f = "snd (sampleFeature ''F'' (Some ''state'') True (Some ''C''))"
  let ?c = "\<lparr>cf_value = BoolValue True\<rparr>"
  have t: "f_type ?f = Some ''state''" by (simp add: sampleFeature_def)
  have a: "map_of (allFeatures sampleKey) ''F'' = Some ?f \<and> (''F'', ?c) \<in> set [(''F'', ?c)] \<and>
      ''A'' \<in> entityIds sampleKey \<and> scoreOf sampleKey ''A'' ''F'' = Some (StateScore ''0'')"
    by (simp add: sampleKey_def sampleFeature_def entityIds_def scoreOf_def)
  have top: "''A'' \<notin> topLevelGroupIds (entityTree sampleKey)"
    by (simp add: sampleKey_def topLevelGroupIds_def)
  have b: "map_of (allFeatures sampleKey) ''F'' = Some ?f \<and> ''B'' \<in> entityIds sampleKey \<and>
      scoreOf sampleKey ''B'' ''F'' = Some (StateScore ''3'') \<and> ''3'' \<noteq> ''0''"
    by (simp add: sampleKey_def sampleFeature_def entityIds_def scoreOf_def)
  from state_constraint_mismatch [OF t, of decimalParse "Some (StateScore ''0'')" "?c" sampleKey "''F''"
      "[(''F'', ?c)]" "''A''" "''3''"]
    state_constraint_mismatch [OF t, of decimalParse "Some (StateScore ''3'')" "?c" sampleKey "''F''"
      "[(''F'', ?c)]" "''B''" "''3''"]
    a b top
  show ?thesis by simp
qed

subsection \<open>Numeric constraints\<close>

text \<open>
  C3. For a chosen constraint on a feature of type \<open>numeric\<close>, the test counts a mismatch
  exactly when the entity has no score for the feature id, or the chosen value parses to NaN,
  or the parsed value is below \<open>min\<close> or above \<open>max\<close> of the stored score; for finite bounds
  and a finite parsed value that is: the value is outside the closed interval. With the
  range 2 to 5 stored, the value \<open>"6"\<close> discards the entity, \<open>"5"\<close> does not, and \<open>"abc"\<close>
  discards it.
\<close>

theorem numeric_constraint_mismatch:
  assumes "f_type feature = Some ''numeric''"
  shows "(isMismatch pf feature score choice \<longleftrightarrow>
            score = None \<or> isNaN (choiceNumber pf (cf_value choice)) \<or>
            (\<exists>sc. score = Some sc \<and>
               (jsLess (choiceNumber pf (cf_value choice)) (scoreMin sc) \<or>
                jsLess (scoreMax sc) (choiceNumber pf (cf_value choice))))) \<and>
         (choiceNumber pf (cf_value choice) = Fin x \<longrightarrow>
            (isMismatch pf feature (Some (NumericScore (Fin lo) (Fin hi))) choice \<longleftrightarrow>
               \<not> (lo \<le> x \<and> x \<le> hi))) \<and>
         (pf ''6'' = Fin 6 \<and> pf ''5'' = Fin 5 \<and> pf ''abc'' = NaN \<and>
          map_of (allFeatures kd) fid = Some feature \<and> e \<in> entityIds kd \<and>
          scoreOf kd e fid = Some (NumericScore (Fin 2) (Fin 5)) \<longrightarrow>
            e \<in> directlyDiscarded
                  (computeMatches pf (Some kd) [(fid, \<lparr>cf_value = StringValue ''6''\<rparr>)]) \<and>
            e \<in> directMatches
                  (computeMatches pf (Some kd) [(fid, \<lparr>cf_value = StringValue ''5''\<rparr>)]) \<and>
            e \<in> directlyDiscarded
                  (computeMatches pf (Some kd) [(fid, \<lparr>cf_value = StringValue ''abc''\<rparr>)]))"
proof (intro conjI impI)
  show "isMismatch pf feature score choice \<longleftrightarrow>
            score = None \<or> isNaN (choiceNumber pf (cf_value choice)) \<or>
            (\<exists>sc. score = Some sc \<and>
               (jsLess (choiceNumber pf (cf_value choice)) (scoreMin sc) \<or>
                jsLess (scoreMax sc) (choiceNumber pf (cf_value choice))))"
    using assms by (cases score) (auto simp: isMismatch_def)
next
  assume "choiceNumber pf (cf_value choice) = Fin x"
  with assms show "isMismatch pf feature (Some (NumericScore (Fin lo) (Fin hi))) choice \<longleftrightarrow>
      \<not> (lo \<le> x \<and> x \<le> hi)"
    by (auto simp: isMismatch_def)
next
  assume a: "pf ''6'' = Fin 6 \<and> pf ''5'' = Fin 5 \<and> pf ''abc'' = NaN \<and>
          map_of (allFeatures kd) fid = Some feature \<and> e \<in> entityIds kd \<and>
          scoreOf kd e fid = Some (NumericScore (Fin 2) (Fin 5))"
  with assms show
    "e \<in> directlyDiscarded
          (computeMatches pf (Some kd) [(fid, \<lparr>cf_value = StringValue ''6''\<rparr>)])"
    "e \<in> directMatches
          (computeMatches pf (Some kd) [(fid, \<lparr>cf_value = StringValue ''5''\<rparr>)])"
    "e \<in> directlyDiscarded
          (computeMatches pf (Some kd) [(fid, \<lparr>cf_value = StringValue ''abc''\<rparr>)])"
    by (simp_all add: directlyDiscarded_iff direct_iff isMismatch_def)
qed

theorem numeric_constraint_mismatch_witness:
  "isMismatch decimalParse (snd (sampleFeature ''N'' (Some ''numeric'') False None))
     (Some (NumericScore (Fin 2) (Fin 5))) \<lparr>cf_value = StringValue ''6''\<rparr> \<and>
   \<not> isMismatch decimalParse (snd (sampleFeature ''N'' (Some ''numeric'') False None))
     (Some (NumericScore (Fin 2) (Fin 5))) \<lparr>cf_value = StringValue ''5''\<rparr> \<and>
   ''E'' \<in> directlyDiscarded (computeMatches decimalParse (Some sampleKey)
       [(''N'', \<lparr>cf_value = StringValue ''6''\<rparr>)]) \<and>
   ''E'' \<in> directMatches (computeMatches decimalParse (Some sampleKey)
       [(''N'', \<lparr>cf_value = StringValue ''5''\<rparr>)]) \<and>
   ''E'' \<in> directlyDiscarded (computeMatches decimalParse (Some sampleKey)
       [(''N'', \<lparr>cf_value = StringValue ''abc''\<rparr>)])"
proof -
  let ?f = "snd (sampleFeature ''N'' (Some ''numeric'') False None)"
  have t: "f_type ?f = Some ''numeric''" by (simp add: sampleFeature_def)
  have p: "decimalParse ''6'' = Fin 6" "decimalParse ''5'' = Fin 5" "decimalParse ''abc'' = NaN"
    by (simp_all add: decimalParse_def isDigit_def digitsValue_def)
  have a: "decimalParse ''6'' = Fin 6 \<and> decimalParse ''5'' = Fin 5 \<and> decimalParse ''abc'' = NaN \<and>
      map_of (allFeatures sampleKey) ''N'' = Some ?f \<and> ''E'' \<in> entityIds sampleKey \<and>
      scoreOf sampleKey ''E'' ''N'' = Some (NumericScore (Fin 2) (Fin 5))"
    using p by (simp add: sampleKey_def sampleFeature_def entityIds_def scoreOf_def)
  from numeric_constraint_mismatch [OF t, of decimalParse "Some (NumericScore (Fin 2) (Fin 5))"
      "\<lparr>cf_value = StringValue ''6''\<rparr>" 6 2 5 sampleKey "''N''" "''E''"]
    numeric_constraint_mismatch [OF t, of decimalParse "Some (NumericScore (Fin 2) (Fin 5))"
      "\<lparr>cf_value = StringValue ''5''\<rparr>" 5 2 5 sampleKey "''N''" "''E''"]
    a p
  show ?thesis by simp
qed

subsection \<open>Constraints on unknown features\<close>

text \<open>
  C10. A chosen constraint whose feature id is not in the feature catalog is skipped: with or
  without it, every entity has the same mismatch verdict, and the directly discarded and the
  direct sets are the same; whatever is discarded with it has a mismatch on another
  constraint, and alone it discards nothing.
\<close>

theorem unknown_feature_skipped:
  assumes "map_of (allFeatures kd) fid = None"
  shows "hasMismatch pf kd e (before @ (fid, choice) # after) =
           hasMismatch pf kd e (before @ after) \<and>
         directlyDiscarded (computeMatches pf (Some kd) (before @ (fid, choice) # after)) =
           directlyDiscarded (computeMatches pf (Some kd) (before @ after)) \<and>
         directMatches (computeMatches pf (Some kd) (before @ (fid, choice) # after)) =
           directMatches (computeMatches pf (Some kd) (before @ after)) \<and>
         discardedEntityIds (computeMatches pf (Some kd) (before @ (fid, choice) # after))
           \<subseteq> directlyDiscarded (computeMatches pf (Some kd) (before @ after)) \<and>
         directlyDiscarded (computeMatches pf (Some kd) [(fid, choice)]) = {}"
proof -
  have skip: "hasMismatch pf kd e' (before @ (fid, choice) # after) =
      hasMismatch pf kd e' (before @ after)" for e'
    using assms by (simp add: hasMismatch_append)
  have ne: "before @ (fid, choice) # after \<noteq> []" by simp
  have dd: "directlyDiscarded (computeMatches pf (Some kd) (before @ (fid, choice) # after)) =
           directlyDiscarded (computeMatches pf (Some kd) (before @ after))"
  proof (cases "before @ after = []")
    case True
    then show ?thesis
      using assms by (auto simp: directlyDiscarded_iff) (simp add: computeMatches_def)
  next
    case False
    show ?thesis
      by (auto simp: directlyDiscarded_iff [OF ne] directlyDiscarded_iff [OF False] skip)
  qed
  have dm: "directMatches (computeMatches pf (Some kd) (before @ (fid, choice) # after)) =
           directMatches (computeMatches pf (Some kd) (before @ after))"
  proof (cases "before @ after = []")
    case True
    then show ?thesis
      using assms by (auto simp: direct_iff) (simp_all add: computeMatches_def entityIds_def)
  next
    case False
    show ?thesis
      by (auto simp: direct_iff [OF ne] direct_iff [OF False] skip)
  qed
  have "discardedEntityIds (computeMatches pf (Some kd) (before @ (fid, choice) # after))
      \<subseteq> directlyDiscarded (computeMatches pf (Some kd) (before @ (fid, choice) # after))"
    by (auto simp: discarded_iff [OF ne] directlyDiscarded_iff [OF ne])
  moreover have "directlyDiscarded (computeMatches pf (Some kd) [(fid, choice)]) = {}"
    using assms by (auto simp: directlyDiscarded_iff)
  ultimately show ?thesis using skip dd dm by simp
qed

theorem unknown_feature_skipped_witness:
  "map_of (allFeatures sampleKey) ''Z'' = None \<and>
   directlyDiscarded (computeMatches decimalParse (Some sampleKey)
       [(''F'', \<lparr>cf_value = BoolValue True\<rparr>), (''Z'', \<lparr>cf_value = BoolValue True\<rparr>)]) =
     {''G1'', ''G2'', ''G3'', ''A'', ''H''} \<and>
   directMatches (computeMatches decimalParse (Some sampleKey)
       [(''F'', \<lparr>cf_value = BoolValue True\<rparr>), (''Z'', \<lparr>cf_value = BoolValue True\<rparr>)]) =
     {''E'', ''B''} \<and>
   directlyDiscarded (computeMatches decimalParse (Some sampleKey)
       [(''Z'', \<lparr>cf_value = BoolValue True\<rparr>)]) = {}"
proof -
  let ?c = "\<lparr>cf_value = BoolValue True\<rparr>"
  have z: "map_of (allFeatures sampleKey) ''Z'' = None"
    by (simp add: sampleKey_def sampleFeature_def)
  have base: "directlyDiscarded (computeMatches decimalParse (Some sampleKey) [(''F'', ?c)]) =
      {''G1'', ''G2'', ''G3'', ''A'', ''H''}"
    "directMatches (computeMatches decimalParse (Some sampleKey) [(''F'', ?c)]) = {''E'', ''B''}"
    by (auto simp: sample_simps)
  from unknown_feature_skipped [OF z, of decimalParse "''A''" "[(''F'', ?c)]" "?c" "[]"] z base
  show ?thesis by simp
qed

subsection \<open>The three sets partition the entity ids\<close>

text \<open>
  C9. When every id of the entity tree is in the entity catalog, the direct, indirect and
  discarded sets are pairwise disjoint and their union is the set of all entity ids; the
  direct matches are all ids but the directly discarded ones, and the discarded set is all
  ids but the direct and indirect matches.
\<close>

theorem computeMatches_partition:
  assumes "treeIds (entityTree kd) \<subseteq> entityIds kd"
  shows "directMatches (computeMatches pf (Some kd) chosen) \<inter>
           indirectMatches (computeMatches pf (Some kd) chosen) = {} \<and>
         directMatches (computeMatches pf (Some kd) chosen) \<inter>
           discardedEntityIds (computeMatches pf (Some kd) chosen) = {} \<and>
         indirectMatches (computeMatches pf (Some kd) chosen) \<inter>
           discardedEntityIds (computeMatches pf (Some kd) chosen) = {} \<and>
         directMatches (computeMatches pf (Some kd) chosen) \<union>
           indirectMatches (computeMatches pf (Some kd) chosen) \<union>
           discardedEntityIds (computeMatches pf (Some kd) chosen) = entityIds kd \<and>
         directMatches (computeMatches pf (Some kd) chosen) =
           entityIds kd - directlyDiscarded (computeMatches pf (Some kd) chosen) \<and>
         discardedEntityIds (computeMatches pf (Some kd) chosen) =
           entityIds kd - (directMatches (computeMatches pf (Some kd) chosen) \<union>
             indirectMatches (computeMatches pf (Some kd) chosen))"
proof (cases "chosen = []")
  case True
  then show ?thesis by (simp add: computeMatches_def entityIds_def)
next
  case False
  from computeMatches_sets [OF False, of kd pf] obtain D where
    D: "D \<subseteq> topLevelGroupIds (entityTree kd)"
    "D \<inter> directMatches (computeMatches pf (Some kd) chosen) = {}"
    "directlyDiscarded (computeMatches pf (Some kd) chosen) =
       {e \<in> entityIds kd. hasMismatch pf kd e chosen}"
    "directMatches (computeMatches pf (Some kd) chosen) =
       {e \<in> entityIds kd. \<not> hasMismatch pf kd e chosen}"
    "indirectMatches (computeMatches pf (Some kd) chosen) = D"
    "discardedEntityIds (computeMatches pf (Some kd) chosen) =
       entityIds kd - (directMatches (computeMatches pf (Some kd) chosen) \<union> D)"
    by blast
  have "D \<subseteq> entityIds kd"
    using D(1) assms top_level_in_treeIds by (fastforce simp: topLevelGroupIds_def)
  then show ?thesis
    unfolding D(5) D(6) D(3) using D(2) unfolding D(4) by auto
qed

theorem computeMatches_partition_witness:
  "treeIds (entityTree sampleKey) \<subseteq> entityIds sampleKey \<and>
   (directMatches (computeMatches decimalParse (Some sampleKey) [(''F'', \<lparr>cf_value = BoolValue True\<rparr>)]) \<inter>
      indirectMatches (computeMatches decimalParse (Some sampleKey) [(''F'', \<lparr>cf_value = BoolValue True\<rparr>)]) = {} \<and>
    directMatches (computeMatches decimalParse (Some sampleKey) [(''F'', \<lparr>cf_value = BoolValue True\<rparr>)]) \<inter>
      discardedEntityIds (computeMatches decimalParse (Some sampleKey) [(''F'', \<lparr>cf_value = BoolValue True\<rparr>)]) = {} \<and>
    indirectMatches (computeMatches decimalParse (Some sampleKey) [(''F'', \<lparr>cf_value = BoolValue True\<rparr>)]) \<inter>
      discardedEntityIds (computeMatches decimalParse (Some sampleKey) [(''F'', \<lparr>cf_value = BoolValue True\<rparr>)]) = {} \<and>
    directMatches (computeMatches decimalParse (Some sampleKey) [(''F'', \<lparr>cf_value = BoolValue True\<rparr>)]) \<union>
      indirectMatches (computeMatches decimalParse (Some sampleKey) [(''F'', \<lparr>cf_value = BoolValue True\<rparr>)]) \<union>
      discardedEntityIds (computeMatches decimalParse (Some sampleKey) [(''F'', \<lparr>cf_value = BoolValue True\<rparr>)]) =
      entityIds sampleKey \<and>
    directMatches (computeMatches decimalParse (Some sampleKey) [(''F'', \<lparr>cf_value = BoolValue True\<rparr>)]) =
      entityIds sampleKey -
      directlyDiscarded (computeMatches decimalParse (Some sampleKey) [(''F'', \<lparr>cf_value = BoolValue True\<rparr>)]) \<and>
    discardedEntityIds (computeMatches decimalParse (Some sampleKey) [(''F'', \<lparr>cf_value = BoolValue True\<rparr>)]) =
      entityIds sampleKey -
      (directMatches (computeMatches decimalParse (Some sampleKey) [(''F'', \<lparr>cf_value = BoolValue True\<rparr>)]) \<union>
       indirectMatches (computeMatches decimalParse (Some sampleKey) [(''F'', \<lparr>cf_value = BoolValue True\<rparr>)])))"
proof -
  have h: "treeIds (entityTree sampleKey) \<subseteq> entityIds sampleKey"
    by (simp add: treeIds_def sampleKey_def entityIds_def)
  show ?thesis
    by (rule conjI [OF h computeMatches_partition [OF h]])
qed

subsection \<open>The indirect pass\<close>

text \<open>
  C1. The indirect pass is meant to retain every ancestor group of a remaining entity. The
  pass scans the nodes it is given, which are the roots of the entity tree, and never descends
  into their children. On the sample key, with the state \<open>F\<close> chosen, only the leaves \<open>E\<close>
  and \<open>B\<close> are direct matches: the root group \<open>H\<close> over \<open>B\<close> becomes an indirect match, while
  the chain \<open>G1\<close>, \<open>G2\<close>, \<open>G3\<close> over \<open>E\<close> is discarded, none of the three being an indirect
  match.
\<close>

theorem indirect_scan_top_level_only:
  "indirectMatches (computeMatches decimalParse (Some sampleKey)
       [(''F'', \<lparr>cf_value = BoolValue True\<rparr>)]) = {''H''} \<and>
   directMatches (computeMatches decimalParse (Some sampleKey)
       [(''F'', \<lparr>cf_value = BoolValue True\<rparr>)]) = {''E'', ''B''} \<and>
   discardedEntityIds (computeMatches decimalParse (Some sampleKey)
       [(''F'', \<lparr>cf_value = BoolValue True\<rparr>)]) = {''G1'', ''G2'', ''G3'', ''A''}"
  by (auto simp: sample_simps)

end
